theory Spec2Isabelle
  imports Complex_Main
begin

section \<open>Values, errors and the numpy operations the code uses\<close>

text \<open>
  The program is \<^verbatim>\<open>bfast/python/base_nans.py\<close>: class \<^verbatim>\<open>BFASTPython\<close> with the methods
  \<^verbatim>\<open>fit\<close>, \<^verbatim>\<open>fit_single\<close> and \<^verbatim>\<open>build_seasonal_model\<close>.

  A float is a real number or NaN (\<open>None\<close>); rounding and infinities are left out, the
  properties below are about indices, lengths, positions and which operand a step reads.
  A one-dimensional array is a list, a two-dimensional array the list of its rows.
  Index arrays hold Python integers.
\<close>

type_synonym val = "real option"
type_synonym vec = "val list"
type_synonym mat = "val list list"

text \<open>
  Exceptions as values. \<open>UnknownSeasonalModel\<close> is the
  \<^verbatim>\<open>ValueError("Seasonal model is unknown, ...")\<close> raised by \<^verbatim>\<open>build_seasonal_model\<close>;
  \<open>ValueError\<close> and \<open>IndexError\<close> are the ones numpy and statsmodels raise (shape
  mismatch, empty reduction, negative dimension; index out of bounds);
  \<open>UnboundLocalError v\<close> is a read of the local name \<open>v\<close> before any assignment;
  \<open>CollaboratorError\<close> is any exception raised inside a module that is called but
  is not part of this file (STL, EFP, Breakpoints, utils, the least-squares fit).
\<close>

datatype error =
    UnknownSeasonalModel
  | ValueError
  | IndexError
  | ZeroDivisionError
  | UnboundLocalError string
  | CollaboratorError

definition bindE :: "error + 'a \<Rightarrow> ('a \<Rightarrow> error + 'b) \<Rightarrow> error + 'b" where
  "bindE m f = (case m of Inl e \<Rightarrow> Inl e | Inr x \<Rightarrow> f x)"

definition liftC :: "'a option \<Rightarrow> error + 'a" where
  "liftC r = (case r of None \<Rightarrow> Inl CollaboratorError | Some x \<Rightarrow> Inr x)"

definition np_isnan :: "val \<Rightarrow> bool" where
  "np_isnan v = (v = None)"

definition fsub :: "val \<Rightarrow> val \<Rightarrow> val" where
  "fsub a b = (case a of None \<Rightarrow> None | Some x \<Rightarrow> (case b of None \<Rightarrow> None | Some y \<Rightarrow> Some (x - y)))"

text \<open>
  \<^verbatim>\<open>a - b\<close> on one-dimensional arrays: elementwise on equal lengths, a length-one operand
  is broadcast, any other pair of lengths raises ValueError.
\<close>

definition np_sub :: "vec \<Rightarrow> vec \<Rightarrow> error + vec" where
  "np_sub a b =
     (if length a = length b then Inr (map2 fsub a b)
      else if length b = 1 then Inr (map (\<lambda>x. fsub x (hd b)) a)
      else if length a = 1 then Inr (map (\<lambda>y. fsub (hd a) y) b)
      else Inl ValueError)"

text \<open>
  One integer index into an axis of length \<open>n\<close>: \<open>0 .. n-1\<close> as it is, \<open>-n .. -1\<close>
  counted from the end, anything else out of bounds.
\<close>

definition np_index :: "nat \<Rightarrow> int \<Rightarrow> nat option" where
  "np_index n i =
     (if 0 \<le> i \<and> i < int n then Some (nat i)
      else if - int n \<le> i \<and> i < 0 then Some (nat (i + int n))
      else None)"

text \<open>\<^verbatim>\<open>xs[idx]\<close> with an integer index array (rows, for a matrix).\<close>

definition np_take :: "'a list \<Rightarrow> int list \<Rightarrow> error + 'a list" where
  "np_take xs idx =
     (if list_all (\<lambda>i. np_index (length xs) i \<noteq> None) idx
      then Inr (map (\<lambda>i. xs ! the (np_index (length xs) i)) idx)
      else Inl IndexError)"

text \<open>
  \<^verbatim>\<open>dst[idx] = src\<close> with an integer index array: \<open>src\<close> has the length of \<open>idx\<close>
  or length one (broadcast); later writes to a repeated index win. The returned list is
  the array after the assignment.
\<close>

definition np_put :: "'a list \<Rightarrow> int list \<Rightarrow> 'a list \<Rightarrow> error + 'a list" where
  "np_put dst idx src =
     (if \<not> list_all (\<lambda>i. np_index (length dst) i \<noteq> None) idx then Inl IndexError
      else if length src = length idx \<or> length src = 1 then
        Inr (fold (\<lambda>p a. a[the (np_index (length dst) (fst p)) := snd p])
               (zip idx (if length src = length idx then src else replicate (length idx) (hd src)))
               dst)
      else Inl ValueError)"

text \<open>
  \<^verbatim>\<open>dst[:len(src)] = src\<close>: the slice is clipped to the length of \<open>dst\<close>; \<open>src\<close> must
  have the length of the slice, or length one (broadcast over the slice).
\<close>

definition np_set_prefix :: "'a list \<Rightarrow> 'a list \<Rightarrow> error + 'a list" where
  "np_set_prefix dst src =
     (let m = min (length src) (length dst) in
      if length src = m then Inr (src @ drop m dst)
      else if length src = 1 then Inr (replicate m (hd src) @ drop m dst)
      else Inl ValueError)"

text \<open>\<^verbatim>\<open>xs[mask]\<close> with a boolean mask of the same length.\<close>

definition np_mask :: "'a list \<Rightarrow> bool list \<Rightarrow> 'a list" where
  "np_mask xs keep = map fst (filter snd (zip xs keep))"

text \<open>
  \<^verbatim>\<open>statsmodels.api.add_constant(data)\<close> with its defaults \<^verbatim>\<open>prepend=True\<close>,
  \<^verbatim>\<open>has_constant='skip'\<close>: a column counts as an existing constant when its range
  (\<^verbatim>\<open>np.ptp\<close> along the rows) is zero and none of its entries is zero; with such a
  column present the data is returned as it is, otherwise a column of ones is put in
  front. The range of a column over zero rows is a reduction of an empty array, which
  numpy refuses with ValueError. A one-dimensional input is one column.
\<close>

definition is_nonzero_const :: "vec \<Rightarrow> bool" where
  "is_nonzero_const col =
     (list_all (\<lambda>v. \<not> np_isnan v \<and> v = hd col) col \<and> list_all (\<lambda>v. v \<noteq> Some 0) col)"

definition column :: "mat \<Rightarrow> nat \<Rightarrow> vec" where
  "column x j = map (\<lambda>r. r ! j) x"

definition add_constant :: "mat \<Rightarrow> error + mat" where
  "add_constant x =
     (if x = [] then Inl ValueError
      else if list_ex (\<lambda>j. is_nonzero_const (column x j)) [0..<length (hd x)] then Inr x
      else Inr (map (\<lambda>r. Some 1 # r) x))"

definition add_constant_1d :: "vec \<Rightarrow> error + mat" where
  "add_constant_1d t = add_constant (map (\<lambda>v. [v]) t)"

section \<open>Configuration and the seasonal model builder\<close>

text \<open>The constructor's parameters; \<^verbatim>\<open>verbose\<close> only selects what is printed.\<close>

record config =
  frequency :: int
  h :: real
  season_type :: string
  max_iter :: int
  max_breaks :: "int option"
  level :: real

text \<open>
  \<^verbatim>\<open>np.row_stack((np.eye(k), np.repeat(-1, k)))\<close> for \<open>k = f - 1\<close>: the identity on top
  of one row of \<open>-1\<close>.
\<close>

definition eye_row :: "nat \<Rightarrow> nat \<Rightarrow> vec" where
  "eye_row k i = map (\<lambda>j. if i = j then Some 1 else Some 0) [0..<k]"

definition eye_box :: "nat \<Rightarrow> mat" where
  "eye_box k = map (eye_row k) [0..<k] @ [replicate k (Some (- 1))]"

definition n_boxes :: "nat \<Rightarrow> int \<Rightarrow> nat" where
  "n_boxes nrow' f = nat \<lceil>real nrow' / real_of_int f\<rceil>"

text \<open>Lines 329-330: the block tiled \<open>n_boxes\<close> times, cut to \<open>nrow\<close> rows.\<close>

definition tiled_box :: "nat \<Rightarrow> int \<Rightarrow> mat" where
  "tiled_box nrow' f = take nrow' (concat (replicate (n_boxes nrow' f) (eye_box (nat (f - 1)))))"

definition harmonic_row :: "int \<Rightarrow> nat \<Rightarrow> vec" where
  "harmonic_row f k =
     (let w = 1 / real_of_int f in
      [Some (cos (2 * pi * real k * w)), Some (sin (2 * pi * real k * w)),
       Some (cos (2 * pi * real k * w * 2)), Some (sin (2 * pi * real k * w * 2)),
       Some (cos (2 * pi * real k * w * 3)), Some (sin (2 * pi * real k * w * 3))])"

text \<open>
  \<^verbatim>\<open>build_seasonal_model(ti)\<close>; only the length of \<open>ti\<close> is read. \<^verbatim>\<open>1/f\<close> divides by
  zero for \<open>f = 0\<close>, \<^verbatim>\<open>np.eye(f - 1)\<close> refuses a negative dimension.
\<close>

definition build_seasonal_model :: "config \<Rightarrow> vec \<Rightarrow> error + mat option" where
  "build_seasonal_model cfg t =
     (let f = frequency cfg; nrow' = length t in
      if season_type cfg = ''harmonic'' then
        (if f = 0 then Inl ZeroDivisionError
         else Inr (Some (map (harmonic_row f) [1..<nrow' + 1])))
      else if season_type cfg = ''dummy'' then
        (if f - 1 < 0 then Inl ValueError
         else bindE (add_constant (tiled_box nrow' f)) (\<lambda>m. Inr (Some m)))
      else if season_type cfg = ''none'' then Inr None
      else Inl UnknownSeasonalModel)"

section \<open>Collaborators\<close>

text \<open>
  \<^verbatim>\<open>fit_single\<close> calls modules that are not part of the file: \<^verbatim>\<open>STL\<close>, \<^verbatim>\<open>EFP\<close>,
  \<^verbatim>\<open>Breakpoints\<close>, \<^verbatim>\<open>omit_nans\<close> and \<^verbatim>\<open>partition_matrix\<close> of \<^verbatim>\<open>utils\<close>, and the
  least-squares fit of statsmodels. They are parameters of the model: each is a function
  of the arguments the call passes, \<open>None\<close> when the call raises.

  \<^item> \<open>stl_seasonal y f\<close> is \<^verbatim>\<open>STL(y, f).seasonal\<close>;
  \<^item> \<open>efp_sctest X y h\<close> is \<^verbatim>\<open>EFP(X, y, h).sctest()\<close>, a p-value;
  \<^item> \<open>omit_nans t v\<close> is the pair \<^verbatim>\<open>omit_nans(t, v)\<close> returns;
  \<^item> \<open>partition_matrix part X\<close> is \<^verbatim>\<open>partition_matrix(part, X)\<close>;
  \<^item> \<open>breakpoints X y h max_breaks\<close> is the object \<^verbatim>\<open>Breakpoints(X, y, h=.., max_breaks=..)\<close>
    with its attribute \<^verbatim>\<open>breakpoints\<close> and the value of its method \<^verbatim>\<open>breakfactor()\<close>;
  \<^item> \<open>ols_predict_exog y x x'\<close> is \<^verbatim>\<open>sm.OLS(y, x, missing='drop').fit().predict(exog=x')\<close>;
  \<^item> \<open>ols_predict y X\<close> is \<^verbatim>\<open>sm.OLS(y, X, missing='drop').fit().predict()\<close>, its first
    argument the response; a failure is a failure of the fit.
\<close>

record bp_result =
  bp_breakpoints :: "int list"
  bp_breakfactor :: "int list option"

record collab =
  stl_seasonal :: "vec \<Rightarrow> int \<Rightarrow> vec option"
  efp_sctest :: "mat \<Rightarrow> vec \<Rightarrow> real \<Rightarrow> val option"
  omit_nans :: "vec \<Rightarrow> vec \<Rightarrow> (vec \<times> vec) option"
  breakpoints :: "mat \<Rightarrow> vec \<Rightarrow> real \<Rightarrow> int option \<Rightarrow> bp_result option"
  partition_matrix :: "int list \<Rightarrow> mat \<Rightarrow> mat option"
  ols_predict_exog :: "vec \<Rightarrow> vec \<Rightarrow> vec \<Rightarrow> vec option"
  ols_predict :: "vec \<Rightarrow> mat \<Rightarrow> vec option"

text \<open>
  Modelled from the spec: \<^verbatim>\<open>create_nan_map\<close> of \<^verbatim>\<open>utils\<close> is missing. The spec's index
  map: the original positions of the non-missing observations, in increasing order, one
  per compacted position.
\<close>

definition create_nan_map :: "vec \<Rightarrow> int list" where
  "create_nan_map y = map int (filter (\<lambda>i. \<not> np_isnan (y ! i)) [0..<length y])"

text \<open>
  Modelled from the spec: \<^verbatim>\<open>different\<close> of \<^verbatim>\<open>utils\<close> is missing. The spec compares
  breakpoint sets as ordered sequences of integers by structural equality (same length,
  same values in order).
\<close>

definition different :: "int list \<Rightarrow> int list \<Rightarrow> bool" where
  "different a b = (a \<noteq> b)"

text \<open>\<^verbatim>\<open>p <= level\<close> on floats: false when \<open>p\<close> is NaN.\<close>

definition p_le :: "val \<Rightarrow> real \<Rightarrow> bool" where
  "p_le p l = (case p of None \<Rightarrow> False | Some x \<Rightarrow> x \<le> l)"

section \<open>The per-pixel algorithm\<close>

text \<open>
  The names bound before the loop and never assigned again (\<open>env\<close>), and the names the
  loop assigns (\<open>locals\<close>). \<open>smod\<close> is bound only when a seasonal matrix was passed;
  \<open>Tt\<close> and \<open>Nt\<close> are bound by the loop body only: \<open>None\<close> is the unbound name.
\<close>

record env =
  nrow_n :: nat
  nan_map :: "int list"
  ti :: vec
  Yt :: vec
  smod :: "mat option"
  nrow :: nat

record locals =
  Vt_bp :: "int list"
  Wt_bp :: "int list"
  CheckTimeTt :: "int list"
  CheckTimeSt :: "int list"
  i_iter :: int
  Tt :: "vec option"
  St :: vec
  Nt :: "vec option"

text \<open>
  Lines 204-240, the change in the trend component: from the current seasonal estimate
  to the new trend breakpoints \<open>Vt_bp\<close> and the new trend \<open>Tt\<close>.
\<close>

definition trend_step :: "config \<Rightarrow> collab \<Rightarrow> env \<Rightarrow> vec \<Rightarrow> error + (int list \<times> vec)" where
  "trend_step cfg c e St' =
     bindE (np_sub (Yt e) St') (\<lambda>Vt.
     bindE (add_constant_1d (ti e)) (\<lambda>X.
     bindE (liftC (efp_sctest c X Vt (h cfg))) (\<lambda>p_Vt.
     bindE (if p_le p_Vt (level cfg) then
              bindE (liftC (omit_nans c (ti e) Vt)) (\<lambda>o1.
              bindE (add_constant_1d (fst o1)) (\<lambda>X'.
              bindE (liftC (breakpoints c X' (snd o1) (h cfg) (max_breaks cfg))) (\<lambda>bp.
              Inr (Some bp))))
            else Inr None) (\<lambda>bp_Vt.
     let nobp_Vt = (case bp_Vt of None \<Rightarrow> True | Some bp \<Rightarrow> length (bp_breakpoints bp) = 0) in
     if nobp_Vt then
       bindE (liftC (ols_predict_exog c Vt (ti e) (ti e))) (\<lambda>Tt'. Inr ([], Tt'))
     else
       (case bp_Vt of
          None \<Rightarrow> Inl (UnboundLocalError ''bp_Vt'')
        | Some bp \<Rightarrow>
            bindE (liftC (bp_breakfactor bp)) (\<lambda>part.
            bindE (add_constant_1d (np_mask (ti e) (map (\<lambda>y. \<not> np_isnan y) (Yt e)))) (\<lambda>Xc.
            bindE (liftC (partition_matrix c part Xc)) (\<lambda>X1.
            bindE (liftC (ols_predict c (Yt e) X1)) (\<lambda>Tt'.
            Inr (bp_breakpoints bp, Tt'))))))))))"

text \<open>
  Lines 243-279, the change in the seasonal component: from the new trend and the
  current seasonal breakpoints to the new seasonal breakpoints \<open>Wt_bp\<close> and the new
  seasonal estimate \<open>St\<close>. With \<^verbatim>\<open>season_type == "none"\<close> \<open>Wt_bp\<close> is not assigned.
\<close>

definition season_step ::
  "config \<Rightarrow> collab \<Rightarrow> env \<Rightarrow> vec \<Rightarrow> int list \<Rightarrow> error + (int list \<times> vec)" where
  "season_step cfg c e Tt' Wt_bp' =
     (if season_type cfg = ''none'' then Inr (Wt_bp', replicate (nrow e) (Some 0))
      else
        bindE (np_sub (Yt e) Tt') (\<lambda>Wt.
        bindE (case smod e of None \<Rightarrow> Inl (UnboundLocalError ''smod'') | Some m \<Rightarrow> Inr m) (\<lambda>sm.
        bindE (liftC (efp_sctest c sm Wt (h cfg))) (\<lambda>p_Wt.
        bindE (if p_le p_Wt (level cfg) then
                 bindE (liftC (breakpoints c sm Wt (h cfg) (max_breaks cfg))) (\<lambda>bp. Inr (Some bp))
               else Inr None) (\<lambda>bp_Wt.
        let nobp_Wt = (case bp_Wt of None \<Rightarrow> True | Some bp \<Rightarrow> length (bp_breakpoints bp) = 0) in
        if nobp_Wt then
          bindE (liftC (ols_predict c Wt sm)) (\<lambda>St'. Inr ([], St'))
        else
          (case bp_Wt of
             None \<Rightarrow> Inl (UnboundLocalError ''bp_Wt'')
           | Some bp \<Rightarrow>
               bindE (liftC (bp_breakfactor bp)) (\<lambda>part.
               bindE (if season_type cfg = ''dummy'' \<or> season_type cfg = ''harmonic''
                      then liftC (partition_matrix c part sm)
                      else Inl (UnboundLocalError ''X_sm1'')) (\<lambda>X_sm1.
               bindE (liftC (ols_predict c Wt X_sm1)) (\<lambda>St'.
               bindE (np_take (nan_map e) (bp_breakpoints bp)) (\<lambda>Wt_bp1.
               Inr (Wt_bp1, St')))))))))))"

text \<open>Lines 198-283, one pass through the body of the \<^verbatim>\<open>while\<close> loop.\<close>

definition loop_body :: "config \<Rightarrow> collab \<Rightarrow> env \<Rightarrow> locals \<Rightarrow> error + locals" where
  "loop_body cfg c e s =
     (let CheckTimeTt' = Vt_bp s; CheckTimeSt' = Wt_bp s in
      bindE (trend_step cfg c e (St s)) (\<lambda>tr.
      bindE (season_step cfg c e (snd tr) (Wt_bp s)) (\<lambda>se.
      bindE (np_sub (Yt e) (snd tr)) (\<lambda>d.
      bindE (np_sub d (snd se)) (\<lambda>Nt'.
      Inr \<lparr>Vt_bp = fst tr, Wt_bp = fst se,
           CheckTimeTt = CheckTimeTt', CheckTimeSt = CheckTimeSt',
           i_iter = i_iter s + 1,
           Tt = Some (snd tr), St = snd se, Nt = Some Nt'\<rparr>)))))"

text \<open>Line 197, the condition of the \<^verbatim>\<open>while\<close> loop.\<close>

definition loop_cond :: "config \<Rightarrow> locals \<Rightarrow> bool" where
  "loop_cond cfg s =
     ((different (Vt_bp s) (CheckTimeTt s) \<or> different (Vt_bp s) (CheckTimeTt s))
      \<and> i_iter s < max_iter cfg)"

lemma bindE_Inr_iff: "bindE m f = Inr y \<longleftrightarrow> (\<exists>x. m = Inr x \<and> f x = Inr y)"
  by (cases m) (simp_all add: bindE_def)

lemma bindE_Inl [simp]: "bindE (Inl e) f = Inl e"
  by (simp add: bindE_def)

lemma bindE_Inr [simp]: "bindE (Inr x) f = f x"
  by (simp add: bindE_def)

lemma loop_body_i_iter: "loop_body cfg c e s = Inr s' \<Longrightarrow> i_iter s' = i_iter s + 1"
  by (auto simp: loop_body_def Let_def bindE_Inr_iff)

function bfast_loop :: "config \<Rightarrow> collab \<Rightarrow> env \<Rightarrow> locals \<Rightarrow> error + locals" where
  "bfast_loop cfg c e s =
     (if loop_cond cfg s then
        (case loop_body cfg c e s of
           Inl err \<Rightarrow> Inl err
         | Inr s' \<Rightarrow> bfast_loop cfg c e s')
      else Inr s)"
  by pat_completeness auto
termination
proof (relation "measure (\<lambda>(cfg, c, e, s). nat (max_iter cfg - i_iter s))")
  show "wf (measure (\<lambda>(cfg, c, e, s). nat (max_iter cfg - i_iter s)))" by simp
next
  fix cfg :: config and c :: collab and e :: env and s s' :: locals
  assume "loop_cond cfg s" and "loop_body cfg c e s = Inr s'"
  then show "((cfg, c, e, s'), (cfg, c, e, s)) \<in> measure (\<lambda>(cfg, c, e, s). nat (max_iter cfg - i_iter s))"
    by (simp add: loop_cond_def loop_body_i_iter)
qed

declare bfast_loop.simps [simp del]

text \<open>
  The seven values \<^verbatim>\<open>fit_single\<close> returns.
\<close>

record pixel_out =
  Tt_n :: vec
  St_n :: vec
  Nt_n :: vec
  Vt_bp_arr :: "int list"
  Wt_bp_arr :: "int list"
  n_Vt_bp :: nat
  n_Wt_bp :: nat

text \<open>Lines 169-195: the seed of the seasonal component, the index map, the compaction.\<close>

definition fit_single_pre ::
  "config \<Rightarrow> collab \<Rightarrow> vec \<Rightarrow> vec \<Rightarrow> mat option \<Rightarrow> error + (env \<times> locals)" where
  "fit_single_pre cfg c y_n t_n smod_n =
     (let nrow_n' = length y_n in
      bindE (if season_type cfg = ''dummy'' \<or> season_type cfg = ''harmonic''
             then liftC (stl_seasonal c y_n (frequency cfg))
             else Inr (replicate nrow_n' (Some 0))) (\<lambda>s_n.
      let nan_map' = create_nan_map y_n in
      bindE (np_take t_n nan_map') (\<lambda>ti'.
      bindE (np_take s_n nan_map') (\<lambda>St'.
      bindE (np_take y_n nan_map') (\<lambda>Yt'.
      bindE (case smod_n of
               None \<Rightarrow> Inr None
             | Some m \<Rightarrow> bindE (np_take m nan_map') (\<lambda>m'. Inr (Some m'))) (\<lambda>smod'.
      Inr (\<lparr>nrow_n = nrow_n', nan_map = nan_map', ti = ti', Yt = Yt', smod = smod',
            nrow = length Yt'\<rparr>,
           \<lparr>Vt_bp = [], Wt_bp = [], CheckTimeTt = [0], CheckTimeSt = [0], i_iter = 1,
            Tt = None, St = St', Nt = None\<rparr>)))))))"

text \<open>Lines 285-304: the remap to the original positions and the padded breakpoint arrays.\<close>

definition fit_single_post :: "env \<Rightarrow> locals \<Rightarrow> error + pixel_out" where
  "fit_single_post e s =
     (let nans = replicate (nrow_n e) None in
      bindE (case Tt s of None \<Rightarrow> Inl (UnboundLocalError ''Tt'') | Some v \<Rightarrow> Inr v) (\<lambda>tt.
      bindE (np_put nans (nan_map e) tt) (\<lambda>Tt_n'.
      bindE (np_put nans (nan_map e) (St s)) (\<lambda>St_n'.
      bindE (case Nt s of None \<Rightarrow> Inl (UnboundLocalError ''Nt'') | Some v \<Rightarrow> Inr v) (\<lambda>nt.
      bindE (np_put nans (nan_map e) nt) (\<lambda>Nt_n'.
      bindE (np_take (nan_map e) (Vt_bp s)) (\<lambda>Vt_bp_n.
      bindE (np_take (nan_map e) (Wt_bp s)) (\<lambda>Wt_bp_n.
      bindE (np_set_prefix (replicate (nrow_n e) 0) Vt_bp_n) (\<lambda>Vt_bp_arr'.
      bindE (np_set_prefix (replicate (nrow_n e) 0) Wt_bp_n) (\<lambda>Wt_bp_arr'.
      Inr \<lparr>Tt_n = Tt_n', St_n = St_n', Nt_n = Nt_n',
           Vt_bp_arr = Vt_bp_arr', Wt_bp_arr = Wt_bp_arr',
           n_Vt_bp = length (Vt_bp s), n_Wt_bp = length (Wt_bp s)\<rparr>))))))))))"

text \<open>The state of the local names when the \<^verbatim>\<open>while\<close> loop is left.\<close>

definition fit_single_loop ::
  "config \<Rightarrow> collab \<Rightarrow> vec \<Rightarrow> vec \<Rightarrow> mat option \<Rightarrow> error + (env \<times> locals)" where
  "fit_single_loop cfg c y_n t_n smod_n =
     bindE (fit_single_pre cfg c y_n t_n smod_n) (\<lambda>es.
     bindE (bfast_loop cfg c (fst es) (snd es)) (\<lambda>s. Inr (fst es, s)))"

definition fit_single ::
  "config \<Rightarrow> collab \<Rightarrow> vec \<Rightarrow> vec \<Rightarrow> mat option \<Rightarrow> error + pixel_out" where
  "fit_single cfg c y_n t_n smod_n =
     bindE (fit_single_loop cfg c y_n t_n smod_n) (\<lambda>es. fit_single_post (fst es) (snd es))"

section \<open>The raster driver\<close>

text \<open>
  The cube has the shape \<open>(N, W, H)\<close>. The global arrays are kept pixel by pixel:
  entry \<open>i\<close>, \<open>j\<close> is the slice \<^verbatim>\<open>[:, i, j]\<close> (or the count \<^verbatim>\<open>[i, j]\<close>); the narrowing of
  the stored numbers to 32 bits is left out. The first component of the result of
  \<open>fit\<close> counts the pixels handed to \<^verbatim>\<open>fit_single\<close>; an exception leaves the object's
  attributes unassigned.
\<close>

record cube =
  dim_N :: nat
  dim_W :: nat
  dim_H :: nat
  cell :: "nat \<Rightarrow> nat \<Rightarrow> nat \<Rightarrow> val"

record globals =
  trend_global :: "vec list list"
  season_global :: "vec list list"
  remainder_global :: "vec list list"
  trend_breakpoints_global :: "int list list list"
  season_breakpoints_global :: "int list list list"
  n_trend_breakpoints_global :: "nat list list"
  n_season_breakpoints_global :: "nat list list"

definition pixel_series :: "cube \<Rightarrow> nat \<Rightarrow> nat \<Rightarrow> vec" where
  "pixel_series Y i j = map (\<lambda>t. cell Y t i j) [0..<dim_N Y]"

definition put2 :: "'a list list \<Rightarrow> nat \<Rightarrow> nat \<Rightarrow> 'a \<Rightarrow> 'a list list" where
  "put2 g i j v = g[i := (g ! i)[j := v]]"

definition zeros_global :: "cube \<Rightarrow> globals" where
  "zeros_global Y =
     \<lparr>trend_global = replicate (dim_W Y) (replicate (dim_H Y) (replicate (dim_N Y) (Some 0))),
      season_global = replicate (dim_W Y) (replicate (dim_H Y) (replicate (dim_N Y) (Some 0))),
      remainder_global = replicate (dim_W Y) (replicate (dim_H Y) (replicate (dim_N Y) (Some 0))),
      trend_breakpoints_global = replicate (dim_W Y) (replicate (dim_H Y) (replicate (dim_N Y) 0)),
      season_breakpoints_global = replicate (dim_W Y) (replicate (dim_H Y) (replicate (dim_N Y) 0)),
      n_trend_breakpoints_global = replicate (dim_W Y) (replicate (dim_H Y) 0),
      n_season_breakpoints_global = replicate (dim_W Y) (replicate (dim_H Y) 0)\<rparr>"

definition store_pixel :: "globals \<Rightarrow> nat \<Rightarrow> nat \<Rightarrow> pixel_out \<Rightarrow> globals" where
  "store_pixel g i j out =
     \<lparr>trend_global = put2 (trend_global g) i j (Tt_n out),
      season_global = put2 (season_global g) i j (St_n out),
      remainder_global = put2 (remainder_global g) i j (Nt_n out),
      trend_breakpoints_global = put2 (trend_breakpoints_global g) i j (Vt_bp_arr out),
      season_breakpoints_global = put2 (season_breakpoints_global g) i j (Wt_bp_arr out),
      n_trend_breakpoints_global = put2 (n_trend_breakpoints_global g) i j (n_Vt_bp out),
      n_season_breakpoints_global = put2 (n_season_breakpoints_global g) i j (n_Wt_bp out)\<rparr>"

text \<open>The two nested \<^verbatim>\<open>for\<close> loops of \<^verbatim>\<open>fit\<close>, over the pixels in row-major order.\<close>

fun fit_pixels ::
  "config \<Rightarrow> collab \<Rightarrow> cube \<Rightarrow> vec \<Rightarrow> mat option \<Rightarrow> (nat \<times> nat) list \<Rightarrow> nat \<Rightarrow> globals
     \<Rightarrow> nat \<times> (error + globals)" where
  "fit_pixels cfg c Y t sm [] k g = (k, Inr g)"
| "fit_pixels cfg c Y t sm (p # ps) k g =
     (case fit_single cfg c (pixel_series Y (fst p) (snd p)) t sm of
        Inl err \<Rightarrow> (Suc k, Inl err)
      | Inr out \<Rightarrow> fit_pixels cfg c Y t sm ps (Suc k) (store_pixel g (fst p) (snd p) out))"

definition pixels :: "cube \<Rightarrow> (nat \<times> nat) list" where
  "pixels Y = concat (map (\<lambda>i. map (\<lambda>j. (i, j)) [0..<dim_H Y]) [0..<dim_W Y])"

definition fit :: "config \<Rightarrow> collab \<Rightarrow> cube \<Rightarrow> vec \<Rightarrow> nat \<times> (error + globals)" where
  "fit cfg c Y t =
     (case build_seasonal_model cfg t of
        Inl err \<Rightarrow> (0, Inl err)
      | Inr sm \<Rightarrow> fit_pixels cfg c Y t sm (pixels Y) 0 (zeros_global Y))"

section \<open>Concrete inputs\<close>

text \<open>
  The constructor's defaults, and a run small enough to follow by hand: five
  observations, the first one missing, with stand-ins for the collaborators. The seed of
  the seasonal component is all ones, both tests always ask for a breakpoint search, the
  search always returns the single compacted index 1, \<^verbatim>\<open>partition_matrix\<close> returns the
  design it is given, and the least-squares fit returns its response (a perfect fit), so
  that the fitted values show which response a fit was given.
\<close>

definition default_config :: "int \<Rightarrow> config" where
  "default_config f =
     \<lparr>frequency = f, h = 0.15, season_type = ''dummy'', max_iter = 10, max_breaks = None,
      level = 0.05\<rparr>"

definition c_demo :: collab where
  "c_demo =
     \<lparr>stl_seasonal = (\<lambda>y f. Some (replicate (length y) (Some 1))),
      efp_sctest = (\<lambda>X y hh. Some (Some 0)),
      omit_nans = (\<lambda>t v. Some (t, v)),
      breakpoints = (\<lambda>X y hh mb.
         Some \<lparr>bp_breakpoints = [1], bp_breakfactor = Some (0 # replicate (length y - 1) 1)\<rparr>),
      partition_matrix = (\<lambda>part X. Some X),
      ols_predict_exog = (\<lambda>y x x'. Some y),
      ols_predict = (\<lambda>y X. Some y)\<rparr>"

text \<open>
  The same stand-ins, but the test sees a change only for a design of more than two
  columns: never for the trend design (intercept and time), always for the seasonal one.
\<close>

definition c_season_only :: collab where
  "c_season_only =
     c_demo\<lparr>efp_sctest := (\<lambda>X y hh. Some (Some (if length (hd X) = 2 then 1 else 0)))\<rparr>"

definition y_demo :: vec where
  "y_demo = [None, Some 5, Some 6, Some 7, Some 8]"

definition t_demo :: vec where
  "t_demo = [Some 1, Some 2, Some 3, Some 4, Some 5]"

definition smod_demo :: "mat option" where
  "smod_demo =
     Some [[Some 1, Some 1, Some 0], [Some 1, Some 0, Some 1], [Some 1, Some (- 1), Some (- 1)],
           [Some 1, Some 1, Some 0], [Some 1, Some 0, Some 1]]"

text \<open>What lines 169-195 leave behind on this input.\<close>

definition e_demo :: env where
  "e_demo =
     \<lparr>nrow_n = 5, nan_map = [1, 2, 3, 4], ti = [Some 2, Some 3, Some 4, Some 5],
      Yt = [Some 5, Some 6, Some 7, Some 8],
      smod = Some [[Some 1, Some 0, Some 1], [Some 1, Some (- 1), Some (- 1)],
                   [Some 1, Some 1, Some 0], [Some 1, Some 0, Some 1]],
      nrow = 4\<rparr>"

definition s0_demo :: locals where
  "s0_demo =
     \<lparr>Vt_bp = [], Wt_bp = [], CheckTimeTt = [0], CheckTimeSt = [0], i_iter = 1,
      Tt = None, St = [Some 1, Some 1, Some 1, Some 1], Nt = None\<rparr>"

text \<open>The local names after the first pass through the loop body, with \<open>c_demo\<close>.\<close>

definition s1_demo :: locals where
  "s1_demo =
     \<lparr>Vt_bp = [1], Wt_bp = [2], CheckTimeTt = [], CheckTimeSt = [], i_iter = 2,
      Tt = Some [Some 5, Some 6, Some 7, Some 8],
      St = [Some 0, Some 0, Some 0, Some 0],
      Nt = Some [Some 0, Some 0, Some 0, Some 0]\<rparr>"

text \<open>The local names after a second pass.\<close>

definition s2_demo :: locals where
  "s2_demo = s1_demo\<lparr>CheckTimeTt := [1], CheckTimeSt := [2], i_iter := 3\<rparr>"

text \<open>The local names after the first pass with \<open>c_season_only\<close>.\<close>

definition s1_season_only :: locals where
  "s1_season_only =
     \<lparr>Vt_bp = [], Wt_bp = [2], CheckTimeTt = [], CheckTimeSt = [], i_iter = 2,
      Tt = Some [Some 4, Some 5, Some 6, Some 7],
      St = [Some 1, Some 1, Some 1, Some 1],
      Nt = Some [Some 0, Some 0, Some 0, Some 0]\<rparr>"

definition out_demo :: pixel_out where
  "out_demo =
     \<lparr>Tt_n = [None, Some 5, Some 6, Some 7, Some 8],
      St_n = [None, Some 0, Some 0, Some 0, Some 0],
      Nt_n = [None, Some 0, Some 0, Some 0, Some 0],
      Vt_bp_arr = [2, 0, 0, 0, 0], Wt_bp_arr = [3, 0, 0, 0, 0],
      n_Vt_bp = 1, n_Wt_bp = 1\<rparr>"

text \<open>A cube of one pixel holding the series above.\<close>

definition cube_demo :: cube where
  "cube_demo = \<lparr>dim_N = 5, dim_W = 1, dim_H = 1, cell = (\<lambda>t i j. y_demo ! t)\<rparr>"

section \<open>The index map and the numpy operations\<close>

lemma length_create_nan_map: "length (create_nan_map y) \<le> length y"
  unfolding create_nan_map_def
  by (metis diff_zero length_filter_le length_map length_upt)

lemma create_nan_map_nth:
  assumes "k < length (create_nan_map y)"
  shows "0 \<le> create_nan_map y ! k" and "nat (create_nan_map y ! k) < length y"
    and "\<not> np_isnan (y ! nat (create_nan_map y ! k))"
proof -
  let ?f = "filter (\<lambda>i. \<not> np_isnan (y ! i)) [0..<length y]"
  from assms have k: "k < length ?f" by (simp add: create_nan_map_def)
  hence "?f ! k \<in> set ?f" by (rule nth_mem)
  hence a: "?f ! k < length y" "\<not> np_isnan (y ! (?f ! k))" by auto
  have b: "create_nan_map y ! k = int (?f ! k)" using k by (simp add: create_nan_map_def)
  show "0 \<le> create_nan_map y ! k" using b by simp
  show "nat (create_nan_map y ! k) < length y" using a b by simp
  show "\<not> np_isnan (y ! nat (create_nan_map y ! k))" using a b by simp
qed

lemma create_nan_map_mem:
  "i \<in> set (create_nan_map y) \<longleftrightarrow> (\<exists>j<length y. i = int j \<and> \<not> np_isnan (y ! j))"
  unfolding create_nan_map_def by auto

lemma np_index_in_range: "0 \<le> i \<Longrightarrow> nat i < n \<Longrightarrow> np_index n i = Some (nat i)"
  by (simp add: np_index_def)

lemma np_take_length: "np_take xs idx = Inr ys \<Longrightarrow> length ys = length idx"
  by (auto simp: np_take_def split: if_splits)

lemma np_take_nonempty: "np_take xs idx = Inr ys \<Longrightarrow> idx \<noteq> [] \<Longrightarrow> xs \<noteq> []"
  by (cases idx) (auto simp: np_take_def np_index_def split: if_splits)

lemma np_set_prefix_props:
  assumes "np_set_prefix (replicate n z) src = Inr arr" and "src \<noteq> [] \<Longrightarrow> 0 < n"
  shows "length arr = n" and "length src \<le> n" and "take (length src) arr = src"
    and "\<And>k. length src \<le> k \<Longrightarrow> k < n \<Longrightarrow> arr ! k = z"
proof -
  have le: "length src \<le> n"
  proof (rule ccontr)
    assume "\<not> length src \<le> n"
    with assms(1) have "length src = 1" by (auto simp: np_set_prefix_def Let_def split: if_splits)
    with assms(2) \<open>\<not> length src \<le> n\<close> show False by (cases src) auto
  qed
  hence arr: "arr = src @ replicate (n - length src) z"
    using assms(1) by (auto simp: np_set_prefix_def Let_def min_def split: if_splits)
  show "length src \<le> n" by (rule le)
  show "length arr = n" using arr le by simp
  show "take (length src) arr = src" using arr by simp
  show "\<And>k. length src \<le> k \<Longrightarrow> k < n \<Longrightarrow> arr ! k = z" using arr by (simp add: nth_append)
qed

lemma fold_put_length:
  "length (fold (\<lambda>p a. a[f p := snd p]) ps dst) = length dst"
  by (induction ps arbitrary: dst) auto

lemma fold_put_other:
  "j \<notin> f ` set ps \<Longrightarrow> fold (\<lambda>p a. a[f p := snd p]) ps dst ! j = dst ! j"
  by (induction ps arbitrary: dst) auto

lemma fold_put_nth:
  "distinct (map f ps) \<Longrightarrow> k < length ps \<Longrightarrow> f (ps ! k) < length dst \<Longrightarrow>
   fold (\<lambda>p a. a[f p := snd p]) ps dst ! f (ps ! k) = snd (ps ! k)"
proof (induction ps arbitrary: dst k)
  case Nil
  then show ?case by simp
next
  case (Cons p ps)
  show ?case
  proof (cases k)
    case 0
    have "f p \<notin> f ` set ps" using Cons.prems(1) by auto
    then show ?thesis using 0 Cons.prems(3) by (simp add: fold_put_other)
  next
    case (Suc k')
    then show ?thesis using Cons by simp
  qed
qed

lemma np_put_nan_map:
  assumes "np_put (replicate (length y) z) (create_nan_map y) src = Inr out"
  shows "length out = length y"
    and "\<And>i. i < length y \<Longrightarrow> np_isnan (y ! i) \<Longrightarrow> out ! i = z"
    and "\<And>k. k < length (create_nan_map y) \<Longrightarrow>
           out ! nat (create_nan_map y ! k) = src ! (if length src = length (create_nan_map y) then k else 0)"
proof -
  define idx where "idx = create_nan_map y"
  define f :: "int \<times> 'a \<Rightarrow> nat" where "f = (\<lambda>p. the (np_index (length y) (fst p)))"
  define vals where "vals = (if length src = length idx then src else replicate (length idx) (hd src))"
  define ps where "ps = zip idx vals"
  from assms have len: "length src = length idx \<or> length src = 1"
    and out: "out = fold (\<lambda>p a. a[f p := snd p]) ps (replicate (length y) z)"
    unfolding ps_def vals_def idx_def f_def
    by (simp_all add: np_put_def split: if_splits)
  have lv: "length vals = length idx" by (simp add: vals_def)
  have g: "f (ps ! k) = nat (idx ! k)" if "k < length idx" for k
    using that create_nan_map_nth(1,2)[of k y] lv
    by (simp add: f_def ps_def idx_def np_index_in_range)
  have gset: "f p = nat (fst p)" if "p \<in> set ps" for p
  proof -
    from that obtain k where "k < length ps" "ps ! k = p" by (auto simp: in_set_conv_nth)
    thus ?thesis using g[of k] lv by (auto simp: ps_def)
  qed
  show "length out = length y" by (simp add: out fold_put_length)
  show "out ! i = z" if "i < length y" "np_isnan (y ! i)" for i
  proof -
    have "i \<notin> f ` set ps"
    proof
      assume "i \<in> f ` set ps"
      then obtain p where p: "p \<in> set ps" "i = f p" by auto
      from p(1) have m: "fst p \<in> set idx" unfolding ps_def by (metis in_set_zipE prod.collapse)
      have "i = nat (fst p)" using p gset by simp
      moreover from m obtain j where "j < length y" "fst p = int j" "\<not> np_isnan (y ! j)"
        by (auto simp: create_nan_map_mem idx_def)
      ultimately show False using that(2) by simp
    qed
    thus ?thesis unfolding out using that(1) by (simp add: fold_put_other)
  qed
  show "out ! nat (create_nan_map y ! k) = src ! (if length src = length (create_nan_map y) then k else 0)"
    if "k < length (create_nan_map y)" for k
  proof -
    from that have k: "k < length idx" by (simp add: idx_def)
    have "map f ps = map nat (map fst ps)" using gset by simp
    also have "map fst ps = idx" using lv by (simp add: ps_def)
    finally have map_eq: "map f ps = map nat idx" .
    have "distinct (map nat idx)"
      unfolding idx_def create_nan_map_def by (simp add: distinct_map o_def)
    hence d: "distinct (map f ps)" using map_eq by simp
    have kps: "k < length ps" using k lv by (simp add: ps_def)
    have sv: "snd (ps ! k) = src ! (if length src = length idx then k else 0)"
    proof (cases "length src = length idx")
      case True
      then show ?thesis using k by (simp add: ps_def vals_def)
    next
      case False
      with len have "length src = 1" by simp
      hence "hd src = src ! 0" by (cases src) auto
      then show ?thesis using False k by (simp add: ps_def vals_def)
    qed
    have "f (ps ! k) < length (replicate (length y) z)"
      using g[OF k] create_nan_map_nth(2)[OF that] by (simp add: idx_def)
    from fold_put_nth[of f ps k, OF d kps this]
    show ?thesis unfolding out using g[OF k] sv by (simp add: idx_def)
  qed
qed

lemma fit_single_pre_env:
  assumes "fit_single_pre cfg c y t sm = Inr (e, s0)"
  shows "nan_map e = create_nan_map y" and "nrow_n e = length y"
    and "np_take y (create_nan_map y) = Inr (Yt e)" and "np_take t (create_nan_map y) = Inr (ti e)"
    and "Vt_bp s0 = []" and "Wt_bp s0 = []" and "CheckTimeTt s0 = [0]" and "i_iter s0 = 1"
    and "Tt s0 = None" and "Nt s0 = None"
    and "\<exists>s_n. np_take s_n (create_nan_map y) = Inr (St s0)"
  using assms by (auto simp: fit_single_pre_def Let_def bindE_Inr_iff)

lemma fit_single_loop_Inr:
  "fit_single_loop cfg c y t sm = Inr (e, s) \<longleftrightarrow>
     (\<exists>s0. fit_single_pre cfg c y t sm = Inr (e, s0) \<and> bfast_loop cfg c e s0 = Inr s)"
  by (auto simp: fit_single_loop_def bindE_Inr_iff)

lemma fit_single_Inr:
  "fit_single cfg c y t sm = Inr out \<longleftrightarrow>
     (\<exists>e s. fit_single_loop cfg c y t sm = Inr (e, s) \<and> fit_single_post e s = Inr out)"
  by (auto simp: fit_single_def bindE_Inr_iff)

lemma fit_single_post_Inr:
  assumes "fit_single_post e s = Inr out"
  shows "\<exists>tt nt vn wn.
      Tt s = Some tt \<and> Nt s = Some nt
    \<and> np_put (replicate (nrow_n e) None) (nan_map e) tt = Inr (Tt_n out)
    \<and> np_put (replicate (nrow_n e) None) (nan_map e) (St s) = Inr (St_n out)
    \<and> np_put (replicate (nrow_n e) None) (nan_map e) nt = Inr (Nt_n out)
    \<and> np_take (nan_map e) (Vt_bp s) = Inr vn \<and> np_take (nan_map e) (Wt_bp s) = Inr wn
    \<and> np_set_prefix (replicate (nrow_n e) 0) vn = Inr (Vt_bp_arr out)
    \<and> np_set_prefix (replicate (nrow_n e) 0) wn = Inr (Wt_bp_arr out)
    \<and> n_Vt_bp out = length (Vt_bp s) \<and> n_Wt_bp out = length (Wt_bp s)"
  using assms
  by (auto simp: fit_single_post_def Let_def bindE_Inr_iff split: option.splits)

section \<open>The run on the concrete input\<close>

lemmas np_defs = np_sub_def np_take_def np_put_def np_set_prefix_def np_mask_def np_index_def np_isnan_def fsub_def
  add_constant_def add_constant_1d_def is_nonzero_const_def column_def liftC_def p_le_def
lemmas demo_defs = c_demo_def c_season_only_def default_config_def y_demo_def t_demo_def smod_demo_def e_demo_def
  s0_demo_def s1_demo_def s2_demo_def s1_season_only_def out_demo_def

lemma create_nan_map_demo: "create_nan_map y_demo = [1, 2, 3, 4]"
  by (simp add: create_nan_map_def y_demo_def np_isnan_def upt_conv_Cons)

lemma pre_demo:
  "fit_single_pre ((default_config 3)\<lparr>max_iter := n\<rparr>) c_demo y_demo t_demo smod_demo = Inr (e_demo, s0_demo)"
  "fit_single_pre ((default_config 3)\<lparr>max_iter := n\<rparr>) c_season_only y_demo t_demo smod_demo = Inr (e_demo, s0_demo)"
  by (simp_all add: fit_single_pre_def create_nan_map_demo Let_def)
     (simp_all add: np_defs demo_defs)

lemma trend_step_demo:
  "trend_step ((default_config 3)\<lparr>max_iter := n\<rparr>) c_demo e_demo [Some 1, Some 1, Some 1, Some 1]
     = Inr ([1], [Some 5, Some 6, Some 7, Some 8])"
  "trend_step ((default_config 3)\<lparr>max_iter := n\<rparr>) c_demo e_demo [Some 0, Some 0, Some 0, Some 0]
     = Inr ([1], [Some 5, Some 6, Some 7, Some 8])"
  "trend_step ((default_config 3)\<lparr>max_iter := n\<rparr>) c_season_only e_demo [Some 1, Some 1, Some 1, Some 1]
     = Inr ([], [Some 4, Some 5, Some 6, Some 7])"
  by (simp_all add: trend_step_def np_defs demo_defs Let_def)

lemma season_step_demo:
  "season_step ((default_config 3)\<lparr>max_iter := n\<rparr>) c_demo e_demo [Some 5, Some 6, Some 7, Some 8] w
     = Inr ([2], [Some 0, Some 0, Some 0, Some 0])"
  "season_step ((default_config 3)\<lparr>max_iter := n\<rparr>) c_season_only e_demo [Some 4, Some 5, Some 6, Some 7] w
     = Inr ([2], [Some 1, Some 1, Some 1, Some 1])"
  by (simp_all add: season_step_def np_defs demo_defs Let_def)

lemma loop_body_demo:
  "loop_body ((default_config 3)\<lparr>max_iter := n\<rparr>) c_demo e_demo s0_demo = Inr s1_demo"
  "loop_body ((default_config 3)\<lparr>max_iter := n\<rparr>) c_demo e_demo s1_demo = Inr s2_demo"
  "loop_body ((default_config 3)\<lparr>max_iter := n\<rparr>) c_season_only e_demo s0_demo = Inr s1_season_only"
  by (simp_all add: loop_body_def trend_step_demo season_step_demo s0_demo_def s1_demo_def s2_demo_def
        s1_season_only_def Let_def)
     (simp_all add: np_defs e_demo_def)

lemma loop_cond_demo:
  "loop_cond ((default_config 3)\<lparr>max_iter := n\<rparr>) s0_demo = (1 < n)"
  "loop_cond ((default_config 3)\<lparr>max_iter := n\<rparr>) s1_demo = (2 < n)"
  "loop_cond ((default_config 3)\<lparr>max_iter := n\<rparr>) s2_demo = False"
  "loop_cond ((default_config 3)\<lparr>max_iter := n\<rparr>) s1_season_only = False"
  by (simp_all add: loop_cond_def different_def demo_defs)

lemma bfast_loop_demo_2:
  "bfast_loop ((default_config 3)\<lparr>max_iter := 2\<rparr>) c_demo e_demo s0_demo = Inr s1_demo"
  by (simp add: bfast_loop.simps [of _ _ _ s0_demo] bfast_loop.simps [of _ _ _ s1_demo]
        loop_body_demo loop_cond_demo)

lemma bfast_loop_demo_10:
  "bfast_loop ((default_config 3)\<lparr>max_iter := 10\<rparr>) c_demo e_demo s0_demo = Inr s2_demo"
  by (simp add: bfast_loop.simps [of _ _ _ s0_demo] bfast_loop.simps [of _ _ _ s1_demo]
        bfast_loop.simps [of _ _ _ s2_demo] loop_body_demo loop_cond_demo)

lemma bfast_loop_from_s1_demo:
  "bfast_loop ((default_config 3)\<lparr>max_iter := 2\<rparr>) c_demo e_demo s1_demo = Inr s1_demo"
  "bfast_loop ((default_config 3)\<lparr>max_iter := 10\<rparr>) c_demo e_demo s1_demo = Inr s2_demo"
  by (simp_all add: bfast_loop.simps [of _ _ _ s1_demo] bfast_loop.simps [of _ _ _ s2_demo]
        loop_body_demo loop_cond_demo)

lemma post_demo:
  "fit_single_post e_demo s1_demo = Inr out_demo"
  "fit_single_post e_demo s2_demo = Inr out_demo"
  by (simp_all add: fit_single_post_def Let_def demo_defs np_defs)
     (simp_all add: eval_nat_numeral)

lemma fit_single_demo_2:
  "fit_single ((default_config 3)\<lparr>max_iter := 2\<rparr>) c_demo y_demo t_demo smod_demo = Inr out_demo"
  by (simp add: fit_single_def fit_single_loop_def pre_demo bfast_loop_demo_2 post_demo)

lemma fit_single_demo_10:
  "fit_single ((default_config 3)\<lparr>max_iter := 10\<rparr>) c_demo y_demo t_demo smod_demo = Inr out_demo"
  by (simp add: fit_single_def fit_single_loop_def pre_demo bfast_loop_demo_10 post_demo)

lemma fit_single_demo_default:
  "fit_single (default_config 3) c_demo y_demo t_demo smod_demo = Inr out_demo"
  using fit_single_demo_10 by (simp add: default_config_def)

lemma fit_single_loop_demo_2:
  "fit_single_loop ((default_config 3)\<lparr>max_iter := 2\<rparr>) c_demo y_demo t_demo smod_demo = Inr (e_demo, s1_demo)"
  by (simp add: fit_single_loop_def pre_demo bfast_loop_demo_2)

section \<open>The degenerate paths\<close>

lemma create_nan_map_all_missing: "list_all np_isnan y \<Longrightarrow> create_nan_map y = []"
  by (auto simp: create_nan_map_def list_all_length filter_empty_conv)

lemma np_take_Nil: "np_take xs [] = Inr ys \<Longrightarrow> ys = []"
  by (simp add: np_take_def)

lemma trend_step_empty: "ti e = [] \<Longrightarrow> Yt e = [] \<Longrightarrow> trend_step cfg c e [] = Inl ValueError"
  by (simp add: trend_step_def np_sub_def add_constant_1d_def add_constant_def)

lemma loop_body_empty:
  "ti e = [] \<Longrightarrow> Yt e = [] \<Longrightarrow> St s = [] \<Longrightarrow> loop_body cfg c e s = Inl ValueError"
  by (simp add: loop_body_def Let_def trend_step_empty)

lemma fit_single_post_unbound: "Tt s = None \<Longrightarrow> fit_single_post e s = Inl (UnboundLocalError ''Tt'')"
  by (simp add: fit_single_post_def Let_def)

lemma loop_cond_initial:
  "Vt_bp s = [] \<Longrightarrow> CheckTimeTt s = [0] \<Longrightarrow> i_iter s = 1 \<Longrightarrow> loop_cond cfg s = (1 < max_iter cfg)"
  by (simp add: loop_cond_def different_def)

lemma fit_single_pre_Inl:
  "fit_single_pre cfg c y t sm = Inl err \<Longrightarrow> fit_single cfg c y t sm = Inl err"
  by (simp add: fit_single_def fit_single_loop_def)

text \<open>
  The loop counter starts at 1 and the loop is left as soon as it reaches \<^verbatim>\<open>max_iter\<close>:
  from the initial state the body runs at most \<open>max_iter - 1\<close> times, whatever the
  collaborators return.
\<close>

lemma bfast_loop_counter:
  "bfast_loop cfg c e s = Inr s' \<Longrightarrow> i_iter s' \<le> max (i_iter s) (max_iter cfg)"
proof (induction cfg c e s rule: bfast_loop.induct)
  case (1 cfg c e s)
  show ?case
  proof (cases "loop_cond cfg s")
    case True
    with "1.prems" obtain s1 where b: "loop_body cfg c e s = Inr s1"
      and r: "bfast_loop cfg c e s1 = Inr s'"
      by (subst (asm) bfast_loop.simps) (auto split: sum.splits)
    from "1.IH" [OF True b r] loop_body_i_iter [OF b] True
    show ?thesis by (auto simp: loop_cond_def)
  next
    case False
    with "1.prems" have "s' = s" by (subst (asm) bfast_loop.simps) simp
    then show ?thesis by simp
  qed
qed

section \<open>The tiled block of the dummy model\<close>

lemma n_boxes_cover: assumes "0 < f" shows "n \<le> n_boxes n f * nat f"
proof -
  have "real n \<le> real_of_int \<lceil>real n / real_of_int f\<rceil> * real_of_int f"
    using assms le_of_int_ceiling [of "real n / real_of_int f"]
    by (simp only: pos_divide_le_eq of_int_0_less_iff)
  hence "real_of_int (int n) \<le> real_of_int (\<lceil>real n / real_of_int f\<rceil> * f)"
    by simp
  hence a: "int n \<le> \<lceil>real n / real_of_int f\<rceil> * f"
    by (simp only: of_int_le_iff)
  have "0 \<le> real n / real_of_int f" using assms by simp
  hence b: "0 \<le> \<lceil>real n / real_of_int f\<rceil>" by (metis ceiling_mono ceiling_zero)
  have "int (n_boxes n f * nat f) = \<lceil>real n / real_of_int f\<rceil> * f"
    unfolding n_boxes_def using assms b by simp
  with a show ?thesis by linarith
qed

lemma n_boxes_div: "0 < f \<Longrightarrow> n_boxes n f = nat (- ((- int n) div f))"
  unfolding n_boxes_def
  by (metis ceiling_divide_eq_div of_int_of_nat_eq)

lemma length_concat_replicate: "length (concat (replicate n xs)) = n * length xs"
  by (induction n) simp_all

lemma concat_replicate_nth:
  "i < n * length xs \<Longrightarrow> concat (replicate n xs) ! i = xs ! (i mod length xs)"
proof (induction n arbitrary: i)
  case 0
  then show ?case by simp
next
  case (Suc n)
  show ?case
  proof (cases "i < length xs")
    case True
    then show ?thesis by (simp add: nth_append)
  next
    case False
    hence "i - length xs < n * length xs" using Suc.prems by simp
    from Suc.IH [OF this] False show ?thesis
      by (simp add: nth_append le_mod_geq)
  qed
qed

lemma length_eye_box: "length (eye_box k) = Suc k"
  by (simp add: eye_box_def)

lemma eye_box_nth:
  assumes "r \<le> k" and "j < k"
  shows "eye_box k ! r ! j = (if r = k then Some (- 1) else if r = j then Some 1 else Some 0)"
    and "length (eye_box k ! r) = k"
proof -
  show "eye_box k ! r ! j = (if r = k then Some (- 1) else if r = j then Some 1 else Some 0)"
    using assms by (auto simp: eye_box_def eye_row_def nth_append)
  show "length (eye_box k ! r) = k"
    using assms by (auto simp: eye_box_def eye_row_def nth_append)
qed

lemma length_eye_box_nth: "r \<le> k \<Longrightarrow> length (eye_box k ! r) = k"
  by (auto simp: eye_box_def eye_row_def nth_append)

lemma tiled_box_length:
  assumes "0 < f"
  shows "length (tiled_box n f) = n"
proof -
  have "n \<le> n_boxes n f * nat f" by (rule n_boxes_cover [OF assms])
  moreover have "nat f = Suc (nat (f - 1))" using assms by simp
  ultimately show ?thesis
    by (simp add: tiled_box_def length_concat_replicate length_eye_box)
qed

lemma tiled_box_nth:
  assumes "0 < f" and "i < n"
  shows "tiled_box n f ! i = eye_box (nat (f - 1)) ! (i mod nat f)"
proof -
  have fk: "nat f = Suc (nat (f - 1))" using assms(1) by simp
  have "n \<le> n_boxes n f * nat f" by (rule n_boxes_cover [OF assms(1)])
  hence "i < n_boxes n f * length (eye_box (nat (f - 1)))"
    using assms(2) fk by (simp add: length_eye_box)
  from concat_replicate_nth [OF this] assms(2) fk show ?thesis
    by (simp add: tiled_box_def length_eye_box)
qed

lemma tiled_box_no_constant:
  assumes "2 \<le> f" and "2 \<le> n"
  shows "add_constant (tiled_box n f) = Inr (map (\<lambda>r. Some 1 # r) (tiled_box n f))"
proof -
  define k where "k = nat (f - 1)"
  define tiled where "tiled = tiled_box n f"
  have f0: "0 < f" using assms(1) by simp
  have k1: "1 \<le> k" using assms(1) by (simp add: k_def)
  have fk: "nat f = Suc k" using f0 by (simp add: k_def)
  have T: "length tiled = n" unfolding tiled_def by (rule tiled_box_length [OF f0])
  have ne: "tiled \<noteq> []" using T assms(2) by auto
  have r0: "tiled ! 0 = eye_box k ! 0"
    using tiled_box_nth [OF f0, of 0 n] assms(2) fk by (simp add: tiled_def k_def)
  have m1: "1 mod nat f = 1" using fk k1 by simp
  have "1 < n" using assms(2) by simp
  from tiled_box_nth [OF f0 this] have r1: "tiled ! 1 = eye_box k ! 1"
    unfolding m1 tiled_def k_def .
  have hd: "hd tiled = eye_box k ! 0" using ne r0 by (simp add: hd_conv_nth)
  have len_hd: "length (hd tiled) = k" using hd length_eye_box_nth [of 0 k] by simp
  have "\<not> is_nonzero_const (column tiled j)" if j: "j < k" for j
  proof (cases j)
    case 0
    have c0: "column tiled 0 ! 0 = Some 1"
      using T assms(2) r0 j 0 eye_box_nth(1) [of 0 k 0] by (simp add: column_def)
    have c1: "column tiled 0 ! 1 \<noteq> Some 1"
      using T assms(2) r1 j 0 k1 eye_box_nth(1) [of 1 k 0] by (simp add: column_def)
    have l: "1 < length (column tiled 0)" using T assms(2) by (simp add: column_def)
    hence hd0: "hd (column tiled 0) = Some 1" using c0 by (cases "column tiled 0") auto
    have "column tiled 0 ! 1 \<in> set (column tiled 0)" using l by (rule nth_mem)
    with c1 hd0 have "\<not> list_all (\<lambda>v. \<not> np_isnan v \<and> v = hd (column tiled 0)) (column tiled 0)"
      by (auto simp: list_all_iff)
    then show ?thesis using 0 by (simp add: is_nonzero_const_def)
  next
    case (Suc j')
    have "column tiled j ! 0 = Some 0"
      using T assms(2) r0 j Suc eye_box_nth(1) [of 0 k j] by (simp add: column_def)
    moreover have "0 < length (column tiled j)" using T assms(2) by (simp add: column_def)
    ultimately have "Some 0 \<in> set (column tiled j)" by (metis nth_mem)
    then show ?thesis by (auto simp: is_nonzero_const_def list_all_iff)
  qed
  hence "\<not> list_ex (\<lambda>j. is_nonzero_const (column tiled j)) [0..<length (hd tiled)]"
    using len_hd by (auto simp: list_ex_iff)
  with ne show ?thesis by (simp add: add_constant_def tiled_def)
qed

section \<open>Which exceptions the per-pixel algorithm can raise\<close>

lemma bindE_not_unknown:
  "m \<noteq> Inl UnknownSeasonalModel \<Longrightarrow> (\<And>x. f x \<noteq> Inl UnknownSeasonalModel)
   \<Longrightarrow> bindE m f \<noteq> Inl UnknownSeasonalModel"
  by (cases m) simp_all

lemma if_not_unknown:
  "(b \<Longrightarrow> x \<noteq> Inl UnknownSeasonalModel) \<Longrightarrow> (\<not> b \<Longrightarrow> y \<noteq> Inl UnknownSeasonalModel)
   \<Longrightarrow> (if b then x else y) \<noteq> Inl UnknownSeasonalModel"
  by simp

lemma case_option_not_unknown:
  "x \<noteq> Inl UnknownSeasonalModel \<Longrightarrow> (\<And>v. f v \<noteq> Inl UnknownSeasonalModel)
   \<Longrightarrow> (case r of None \<Rightarrow> x | Some v \<Rightarrow> f v) \<noteq> Inl UnknownSeasonalModel"
  by (cases r) simp_all

lemma np_not_unknown:
  "liftC r \<noteq> Inl UnknownSeasonalModel"
  "np_sub a b \<noteq> Inl UnknownSeasonalModel"
  "np_take xs idx \<noteq> Inl UnknownSeasonalModel"
  "np_put dst idx src \<noteq> Inl UnknownSeasonalModel"
  "np_set_prefix dst src \<noteq> Inl UnknownSeasonalModel"
  "add_constant x \<noteq> Inl UnknownSeasonalModel"
  "add_constant_1d v \<noteq> Inl UnknownSeasonalModel"
  by (simp_all add: liftC_def np_sub_def np_take_def np_put_def np_set_prefix_def add_constant_def
        add_constant_1d_def Let_def split: option.splits)

lemma trend_step_not_unknown: "trend_step cfg c e s \<noteq> Inl UnknownSeasonalModel"
  unfolding trend_step_def Let_def
  by (intro bindE_not_unknown np_not_unknown if_not_unknown case_option_not_unknown) simp_all

lemma season_step_not_unknown: "season_step cfg c e tt w \<noteq> Inl UnknownSeasonalModel"
  unfolding season_step_def Let_def
  by (intro bindE_not_unknown np_not_unknown if_not_unknown case_option_not_unknown) simp_all

lemma loop_body_not_unknown: "loop_body cfg c e s \<noteq> Inl UnknownSeasonalModel"
  unfolding loop_body_def Let_def
  by (intro bindE_not_unknown np_not_unknown trend_step_not_unknown season_step_not_unknown | simp)+

lemma bfast_loop_not_unknown: "bfast_loop cfg c e s \<noteq> Inl UnknownSeasonalModel"
proof (induction cfg c e s rule: bfast_loop.induct)
  case (1 cfg c e s)
  show ?case
  proof (cases "loop_cond cfg s")
    case True
    show ?thesis
    proof (cases "loop_body cfg c e s")
      case (Inl err)
      with True loop_body_not_unknown [of cfg c e s] show ?thesis
        by (subst bfast_loop.simps) simp
    next
      case (Inr s1)
      with True "1.IH" [OF True Inr] show ?thesis
        by (subst bfast_loop.simps) simp
    qed
  next
    case False
    then show ?thesis by (subst bfast_loop.simps) simp
  qed
qed

lemma fit_single_pre_not_unknown: "fit_single_pre cfg c y t sm \<noteq> Inl UnknownSeasonalModel"
  unfolding fit_single_pre_def Let_def
  by (intro bindE_not_unknown np_not_unknown if_not_unknown case_option_not_unknown) simp_all

lemma fit_single_post_not_unknown: "fit_single_post e s \<noteq> Inl UnknownSeasonalModel"
  unfolding fit_single_post_def Let_def
  by (intro bindE_not_unknown np_not_unknown if_not_unknown case_option_not_unknown) simp_all

lemma fit_single_not_unknown: "fit_single cfg c y t sm \<noteq> Inl UnknownSeasonalModel"
  unfolding fit_single_def fit_single_loop_def
  by (intro bindE_not_unknown fit_single_pre_not_unknown bfast_loop_not_unknown
        fit_single_post_not_unknown | simp)+

lemma fit_pixels_not_unknown:
  "snd (fit_pixels cfg c Y t sm ps k g) \<noteq> Inl UnknownSeasonalModel"
proof (induction ps arbitrary: k g)
  case Nil
  then show ?case by simp
next
  case (Cons p ps)
  show ?case
  proof (cases "fit_single cfg c (pixel_series Y (fst p) (snd p)) t sm")
    case (Inl err)
    with fit_single_not_unknown [of cfg c "pixel_series Y (fst p) (snd p)" t sm]
    show ?thesis by simp
  next
    case (Inr out)
    then show ?thesis using Cons.IH by simp
  qed
qed

lemma build_seasonal_model_unknown:
  "build_seasonal_model cfg t = Inl UnknownSeasonalModel \<longleftrightarrow>
     season_type cfg \<noteq> ''harmonic'' \<and> season_type cfg \<noteq> ''dummy'' \<and> season_type cfg \<noteq> ''none''"
  by (auto simp: build_seasonal_model_def Let_def bindE_def add_constant_def split: sum.splits)

section \<open>The claims\<close>

text \<open>
  C1. Claimed: both returned breakpoint arrays hold the original-space indices obtained
  by applying the index map exactly once to the compacted indices of the search. On the
  concrete input both searches return the compacted index 1 and the index map sends 1
  to 2. The trend array holds 2. The seasonal array holds 3: line 278 stores
  \<^verbatim>\<open>nan_map[bp_Wt.breakpoints]\<close> in \<open>Wt_bp\<close> and line 296 applies \<^verbatim>\<open>nan_map\<close> to
  \<open>Wt_bp\<close> again, so the seasonal index went through the map twice.
\<close>

theorem season_breakpoints_mapped_twice:
  "fit_single (default_config 3) c_demo y_demo t_demo smod_demo = Inr out_demo
   \<and> (\<forall>X v hh mb. map_option bp_breakpoints (breakpoints c_demo X v hh mb) = Some [1])
   \<and> np_take (create_nan_map y_demo) [1] = Inr [2]
   \<and> Vt_bp_arr out_demo = [2, 0, 0, 0, 0]
   \<and> Wt_bp_arr out_demo = [3, 0, 0, 0, 0]
   \<and> np_take (create_nan_map y_demo) [2] = Inr [3]"
  by (simp add: fit_single_demo_default create_nan_map_demo)
     (simp add: c_demo_def out_demo_def np_take_def np_index_def)

text \<open>
  C2. Claimed: the decision to run another pass depends only on whether the trend
  breakpoints differ from their value at the start of the pass. With \<^verbatim>\<open>max_iter = 2\<close>
  on the concrete input the trend breakpoints differ from \<open>CheckTimeTt\<close> both before
  the first pass (\<open>[]\<close> against \<open>[0]\<close>) and after it (\<open>[1]\<close> against \<open>[]\<close>); the first
  time a pass is made, the second time the loop is left, because the counter has
  reached \<^verbatim>\<open>max_iter\<close>. From the same state after the first pass the loop makes another
  pass when \<^verbatim>\<open>max_iter\<close> is 10. The decision reads the counter as well.
\<close>

theorem loop_decision_trend_and_counter_counterexample:
  "different (Vt_bp s0_demo) (CheckTimeTt s0_demo)
   \<and> bfast_loop ((default_config 3)\<lparr>max_iter := 2\<rparr>) c_demo e_demo s0_demo = Inr s1_demo
   \<and> i_iter s0_demo = 1
   \<and> different (Vt_bp s1_demo) (CheckTimeTt s1_demo)
   \<and> bfast_loop ((default_config 3)\<lparr>max_iter := 2\<rparr>) c_demo e_demo s1_demo = Inr s1_demo
   \<and> bfast_loop ((default_config 3)\<lparr>max_iter := 10\<rparr>) c_demo e_demo s1_demo = Inr s2_demo
   \<and> i_iter s1_demo = 2 \<and> i_iter s2_demo = 3"
  by (simp add: bfast_loop_from_s1_demo bfast_loop_demo_2)
     (simp add: s0_demo_def s1_demo_def s2_demo_def different_def)

text \<open>
  C2, as the code has it: the \<^verbatim>\<open>while\<close> loop makes another pass exactly when the trend
  breakpoints \<open>Vt_bp\<close> differ, as sequences, from \<open>CheckTimeTt\<close> (the test written twice
  in line 197 is this one test) and the counter is below \<^verbatim>\<open>max_iter\<close>; otherwise it is
  left with the state it has. After a pass \<open>CheckTimeTt\<close> is the value \<open>Vt_bp\<close> had when
  the pass began, so the loop goes on after a pass exactly when the pass changed the
  trend breakpoints and the counter allows it. The seasonal breakpoints and
  \<open>CheckTimeSt\<close> do not enter the decision: whatever they are, the loop is left when
  the trend breakpoints did not change.
\<close>

theorem loop_decision_trend_and_counter:
  "bfast_loop cfg c e s =
     (if Vt_bp s \<noteq> CheckTimeTt s \<and> i_iter s < max_iter cfg
      then (case loop_body cfg c e s of Inl err \<Rightarrow> Inl err | Inr s1 \<Rightarrow> bfast_loop cfg c e s1)
      else Inr s)
   \<and> (loop_body cfg c e s = Inr s' \<longrightarrow>
         CheckTimeTt s' = Vt_bp s \<and> i_iter s' = i_iter s + 1
       \<and> bfast_loop cfg c e s' =
           (if Vt_bp s' \<noteq> Vt_bp s \<and> i_iter s + 1 < max_iter cfg
            then (case loop_body cfg c e s' of
                    Inl err \<Rightarrow> Inl err
                  | Inr s2 \<Rightarrow> bfast_loop cfg c e s2)
            else Inr s'))
   \<and> loop_cond cfg s = (Vt_bp s \<noteq> CheckTimeTt s \<and> i_iter s < max_iter cfg)
   \<and> loop_cond cfg (s\<lparr>Wt_bp := w, CheckTimeSt := x\<rparr>) = loop_cond cfg s
   \<and> (Vt_bp s = CheckTimeTt s \<longrightarrow>
         bfast_loop cfg c e (s\<lparr>Wt_bp := w, CheckTimeSt := x\<rparr>) = Inr (s\<lparr>Wt_bp := w, CheckTimeSt := x\<rparr>))"
proof -
  have cond: "loop_cond cfg r = (Vt_bp r \<noteq> CheckTimeTt r \<and> i_iter r < max_iter cfg)" for r
    by (auto simp: loop_cond_def different_def)
  have unfold: "bfast_loop cfg c e r =
     (if Vt_bp r \<noteq> CheckTimeTt r \<and> i_iter r < max_iter cfg
      then (case loop_body cfg c e r of Inl err \<Rightarrow> Inl err | Inr s1 \<Rightarrow> bfast_loop cfg c e s1)
      else Inr r)" for r
    by (subst bfast_loop.simps) (simp add: cond)
  have pass: "CheckTimeTt s' = Vt_bp s \<and> i_iter s' = i_iter s + 1"
    if "loop_body cfg c e s = Inr s'"
    using that by (auto simp: loop_body_def Let_def bindE_Inr_iff)
  have after: "bfast_loop cfg c e s' =
           (if Vt_bp s' \<noteq> Vt_bp s \<and> i_iter s + 1 < max_iter cfg
            then (case loop_body cfg c e s' of
                    Inl err \<Rightarrow> Inl err
                  | Inr s2 \<Rightarrow> bfast_loop cfg c e s2)
            else Inr s')"
    if "loop_body cfg c e s = Inr s'"
    using pass [OF that] unfold [of s'] by simp
  have season: "loop_cond cfg (s\<lparr>Wt_bp := w, CheckTimeSt := x\<rparr>) = loop_cond cfg s"
    by (simp add: cond)
  have stop: "bfast_loop cfg c e (s\<lparr>Wt_bp := w, CheckTimeSt := x\<rparr>) = Inr (s\<lparr>Wt_bp := w, CheckTimeSt := x\<rparr>)"
    if "Vt_bp s = CheckTimeTt s"
    using that unfold [of "s\<lparr>Wt_bp := w, CheckTimeSt := x\<rparr>"] by simp
  from unfold [of s] pass after cond [of s] season stop show ?thesis by (intro conjI impI) auto
qed

text \<open>
  The instance for C2, with \<^verbatim>\<open>max_iter = 10\<close>. The first pass changes the trend
  breakpoints from \<open>[]\<close> to \<open>[1]\<close> and the loop goes on with a second pass; the second
  pass leaves them at \<open>[1]\<close> and the loop is left. With the collaborators that see a
  change only in the season, the first pass changes the seasonal breakpoints from \<open>[]\<close>
  to \<open>[2]\<close>, the trend breakpoints stay \<open>[]\<close>, and the loop is left.
\<close>

theorem loop_decision_trend_and_counter_witness:
  "loop_body (default_config 3) c_demo e_demo s0_demo = Inr s1_demo
   \<and> Vt_bp s1_demo \<noteq> Vt_bp s0_demo \<and> i_iter s0_demo + 1 < max_iter (default_config 3)
   \<and> loop_body (default_config 3) c_demo e_demo s1_demo = Inr s2_demo
   \<and> bfast_loop (default_config 3) c_demo e_demo s1_demo
       = bfast_loop (default_config 3) c_demo e_demo s2_demo
   \<and> Vt_bp s2_demo = Vt_bp s1_demo \<and> i_iter s2_demo = 3
   \<and> bfast_loop (default_config 3) c_demo e_demo s2_demo = Inr s2_demo
   \<and> loop_body (default_config 3) c_season_only e_demo s0_demo = Inr s1_season_only
   \<and> Wt_bp s1_season_only \<noteq> Wt_bp s0_demo \<and> Vt_bp s1_season_only = Vt_bp s0_demo
   \<and> bfast_loop (default_config 3) c_season_only e_demo s1_season_only = Inr s1_season_only"
proof -
  have d: "(default_config 3)\<lparr>max_iter := 10\<rparr> = default_config 3"
    by (simp add: default_config_def)
  note b = loop_body_demo [of 10, unfolded d]
  have v: "Vt_bp s0_demo = []" "Vt_bp s1_demo = [1]" "Vt_bp s2_demo = [1]"
    "Vt_bp s1_season_only = []" "Wt_bp s0_demo = []" "Wt_bp s1_season_only = [2]"
    "i_iter s0_demo = 1" "i_iter s1_demo = 2" "i_iter s2_demo = 3"
    "max_iter (default_config 3) = 10"
    by (simp_all add: s0_demo_def s1_demo_def s2_demo_def s1_season_only_def default_config_def)
  from loop_decision_trend_and_counter
         [of "default_config 3" c_demo e_demo s0_demo s1_demo "[]" "[]"] b(1,2) v
  have go: "bfast_loop (default_config 3) c_demo e_demo s1_demo
              = bfast_loop (default_config 3) c_demo e_demo s2_demo"
    by simp
  from loop_decision_trend_and_counter
         [of "default_config 3" c_demo e_demo s1_demo s2_demo "[]" "[]"] b(2) v
  have stop: "bfast_loop (default_config 3) c_demo e_demo s2_demo = Inr s2_demo"
    by simp
  from loop_decision_trend_and_counter
         [of "default_config 3" c_season_only e_demo s0_demo s1_season_only "[]" "[]"] b(3) v
  have season: "bfast_loop (default_config 3) c_season_only e_demo s1_season_only
                  = Inr s1_season_only"
    by simp
  from b go stop season v show ?thesis by simp
qed

text \<open>
  C3. Claimed: when the breakpoints do not stabilise the loop makes exactly \<^verbatim>\<open>max_iter\<close>
  passes. With \<^verbatim>\<open>max_iter = 2\<close> on the concrete input the loop is left after one pass
  (the counter went from 1 to 2) although the trend breakpoints just changed from \<open>[]\<close>
  to \<open>[1]\<close>; no error is raised and the estimates of that pass are returned.
\<close>

theorem max_iter_two_runs_one_pass:
  "fit_single_loop ((default_config 3)\<lparr>max_iter := 2\<rparr>) c_demo y_demo t_demo smod_demo
     = Inr (e_demo, s1_demo)
   \<and> loop_body ((default_config 3)\<lparr>max_iter := 2\<rparr>) c_demo e_demo s0_demo = Inr s1_demo
   \<and> i_iter s0_demo = 1 \<and> i_iter s1_demo = 2
   \<and> different (Vt_bp s1_demo) (CheckTimeTt s1_demo)
   \<and> fit_single ((default_config 3)\<lparr>max_iter := 2\<rparr>) c_demo y_demo t_demo smod_demo = Inr out_demo"
  by (simp add: fit_single_loop_demo_2 loop_body_demo fit_single_demo_2)
     (simp add: s0_demo_def s1_demo_def different_def)

text \<open>
  C4. Claimed: an all-missing series is returned as all-missing components with zero
  breakpoints, and nothing is raised. On the code the compacted series is empty and
  \<^verbatim>\<open>fit_single\<close> has no branch for it: here three missing observations, no seasonal
  model, the default \<^verbatim>\<open>max_iter\<close>, any collaborators. The first pass builds the trend
  design from the empty time vector and \<^verbatim>\<open>add_constant\<close> raises ValueError.
\<close>

theorem all_missing_series_raises_counterexample:
  "\<forall>c. fit_single ((default_config 3)\<lparr>season_type := ''none''\<rparr>) c [None, None, None]
          [Some 1, Some 2, Some 3] None = Inl ValueError"
  by (simp add: fit_single_def fit_single_loop_def fit_single_pre_def create_nan_map_def np_isnan_def
        default_config_def np_take_def Let_def upt_conv_Cons
        bfast_loop.simps
          [of _ _ _ "\<lparr>Vt_bp = [], Wt_bp = [], CheckTimeTt = [0], CheckTimeSt = [0], i_iter = 1,
                     Tt = None, St = [], Nt = None\<rparr>"]
        loop_cond_def different_def loop_body_def trend_step_def
        np_sub_def add_constant_1d_def add_constant_def)

text \<open>
  C4, as the code has it: for a series whose values are all missing \<^verbatim>\<open>fit_single\<close>
  returns nothing and raises. Once lines 169-195 have run the index map and the
  compacted series are empty, and the exception is the ValueError of the trend design
  in the first pass, or, when \<^verbatim>\<open>max_iter\<close> allows no pass, the unbound \<open>Tt\<close>.
\<close>

theorem all_missing_series_raises:
  assumes "list_all np_isnan y"
  shows "(\<exists>err. fit_single cfg c y t sm = Inl err)
       \<and> (\<forall>e s0. fit_single_pre cfg c y t sm = Inr (e, s0) \<longrightarrow>
             nan_map e = [] \<and> Yt e = []
           \<and> fit_single cfg c y t sm =
               (if 1 < max_iter cfg then Inl ValueError else Inl (UnboundLocalError ''Tt'')))"
proof -
  have main: "nan_map e = [] \<and> Yt e = []
           \<and> fit_single cfg c y t sm =
               (if 1 < max_iter cfg then Inl ValueError else Inl (UnboundLocalError ''Tt''))"
    if pre: "fit_single_pre cfg c y t sm = Inr (e, s0)" for e s0
  proof -
    note env = fit_single_pre_env[OF pre]
    have nm: "create_nan_map y = []" using assms by (rule create_nan_map_all_missing)
    have e: "nan_map e = []" "Yt e = []" "ti e = []"
      using env(1,3,4) nm by (auto dest: np_take_Nil)
    have s: "St s0 = []" using env(11) nm by (auto dest: np_take_Nil)
    have cond: "loop_cond cfg s0 = (1 < max_iter cfg)"
      using env(5,7,8) by (rule loop_cond_initial)
    have loop: "bfast_loop cfg c e s0 = (if 1 < max_iter cfg then Inl ValueError else Inr s0)"
      by (subst bfast_loop.simps) (simp add: cond loop_body_empty[OF e(3,2) s])
    have "fit_single cfg c y t sm =
            (if 1 < max_iter cfg then Inl ValueError else Inl (UnboundLocalError ''Tt''))"
      by (simp add: fit_single_def fit_single_loop_def pre loop fit_single_post_unbound[OF env(9)])
    with e show ?thesis by simp
  qed
  have "\<exists>err. fit_single cfg c y t sm = Inl err"
  proof (cases "fit_single_pre cfg c y t sm")
    case (Inl err)
    then show ?thesis using fit_single_pre_Inl by blast
  next
    case (Inr es)
    then have "fit_single_pre cfg c y t sm = Inr (fst es, snd es)" by simp
    from main[OF this] show ?thesis by (cases "1 < max_iter cfg") auto
  qed
  with main show ?thesis by blast
qed

text \<open>The instance for C4: two missing observations, the dummy seasonal model.\<close>

theorem all_missing_series_raises_witness:
  "list_all np_isnan [None, None]
   \<and> fit_single (default_config 3) c_demo [None, None] t_demo smod_demo = Inl ValueError"
proof -
  have h: "list_all np_isnan [None, None]" by (simp add: np_isnan_def)
  have pre: "fit_single_pre (default_config 3) c_demo [None, None] t_demo smod_demo
     = Inr (\<lparr>nrow_n = 2, nan_map = [], ti = [], Yt = [], smod = Some [], nrow = 0\<rparr>,
            \<lparr>Vt_bp = [], Wt_bp = [], CheckTimeTt = [0], CheckTimeSt = [0], i_iter = 1,
             Tt = None, St = [], Nt = None\<rparr>)"
    by (simp add: fit_single_pre_def create_nan_map_def np_isnan_def default_config_def np_take_def
          Let_def upt_conv_Cons c_demo_def liftC_def smod_demo_def)
  from all_missing_series_raises [OF h, of "default_config 3" c_demo t_demo smod_demo] pre h
  show ?thesis by (simp add: default_config_def)
qed

text \<open>
  C5. Claimed: the new trend is the segmented fit of the deseasonalised series, with and
  without trend breakpoints. On the concrete input the seasonal estimate is all ones,
  the deseasonalised series is \<open>4, 5, 6, 7\<close> and the search finds a breakpoint; the
  stand-in fit returns its response, and the trend that comes back is \<open>5, 6, 7, 8\<close>,
  the observations: line 237 fits \<^verbatim>\<open>sm.OLS(Yt, X1, ...)\<close>, where line 229 of the branch
  without breakpoints fits \<^verbatim>\<open>sm.OLS(Vt, ti, ...)\<close>.
\<close>

theorem trend_fit_reads_raw_observations:
  "trend_step (default_config 3) c_demo e_demo (St s0_demo)
     = Inr ([1], [Some 5, Some 6, Some 7, Some 8])
   \<and> np_sub (Yt e_demo) (St s0_demo) = Inr [Some 4, Some 5, Some 6, Some 7]
   \<and> (\<forall>X. ols_predict c_demo (Yt e_demo) X = Some [Some 5, Some 6, Some 7, Some 8])
   \<and> (\<forall>X. ols_predict c_demo [Some 4, Some 5, Some 6, Some 7] X
            = Some [Some 4, Some 5, Some 6, Some 7])"
  using trend_step_demo(1) [of 10]
  by (simp add: default_config_def s0_demo_def)
     (simp add: e_demo_def c_demo_def np_sub_def fsub_def)

text \<open>
  C6. Whenever \<^verbatim>\<open>fit_single\<close> returns, the three component arrays have the length of
  the input, hold NaN at every position where the input is missing, and at position
  \<open>nan_map[k]\<close> hold the \<open>k\<close>-th value of the vector the loop left in \<open>Tt\<close>, \<open>St\<close>,
  \<open>Nt\<close>. (The assignment \<^verbatim>\<open>Tt_n[nan_map] = Tt\<close> accepts a vector with one value per
  compacted position, which is what a fit over the compacted series yields, or a vector
  of length one, whose value numpy then writes at every position of the map.)
\<close>

theorem components_remapped:
  assumes "fit_single cfg c y t sm = Inr out"
  shows "length (Tt_n out) = length y \<and> length (St_n out) = length y \<and> length (Nt_n out) = length y
    \<and> (\<forall>i<length y. np_isnan (y ! i) \<longrightarrow>
          Tt_n out ! i = None \<and> St_n out ! i = None \<and> Nt_n out ! i = None)
    \<and> (\<exists>e s tt nt. fit_single_loop cfg c y t sm = Inr (e, s) \<and> Tt s = Some tt \<and> Nt s = Some nt
          \<and> nan_map e = create_nan_map y
          \<and> (\<forall>k<length (nan_map e).
                Tt_n out ! nat (nan_map e ! k) = tt ! (if length tt = length (nan_map e) then k else 0)
              \<and> St_n out ! nat (nan_map e ! k) = St s ! (if length (St s) = length (nan_map e) then k else 0)
              \<and> Nt_n out ! nat (nan_map e ! k) = nt ! (if length nt = length (nan_map e) then k else 0)))"
proof -
  from assms obtain e s where loop: "fit_single_loop cfg c y t sm = Inr (e, s)"
    and post: "fit_single_post e s = Inr out"
    by (auto simp: fit_single_Inr)
  from loop obtain s0 where pre: "fit_single_pre cfg c y t sm = Inr (e, s0)"
    by (auto simp: fit_single_loop_Inr)
  note env = fit_single_pre_env(1,2)[OF pre]
  from fit_single_post_Inr[OF post] obtain tt nt where
    tt: "Tt s = Some tt" and nt: "Nt s = Some nt"
    and pt: "np_put (replicate (length y) None) (create_nan_map y) tt = Inr (Tt_n out)"
    and ps: "np_put (replicate (length y) None) (create_nan_map y) (St s) = Inr (St_n out)"
    and pn: "np_put (replicate (length y) None) (create_nan_map y) nt = Inr (Nt_n out)"
    unfolding env by blast
  note T = np_put_nan_map[OF pt]
  note S = np_put_nan_map[OF ps]
  note N = np_put_nan_map[OF pn]
  have "\<forall>k<length (nan_map e).
          Tt_n out ! nat (nan_map e ! k) = tt ! (if length tt = length (nan_map e) then k else 0)
        \<and> St_n out ! nat (nan_map e ! k) = St s ! (if length (St s) = length (nan_map e) then k else 0)
        \<and> Nt_n out ! nat (nan_map e ! k) = nt ! (if length nt = length (nan_map e) then k else 0)"
    unfolding env using T(3) S(3) N(3) by blast
  with loop tt nt env(1) have ex: "\<exists>e s tt nt. fit_single_loop cfg c y t sm = Inr (e, s) \<and> Tt s = Some tt \<and> Nt s = Some nt
          \<and> nan_map e = create_nan_map y
          \<and> (\<forall>k<length (nan_map e).
                Tt_n out ! nat (nan_map e ! k) = tt ! (if length tt = length (nan_map e) then k else 0)
              \<and> St_n out ! nat (nan_map e ! k) = St s ! (if length (St s) = length (nan_map e) then k else 0)
              \<and> Nt_n out ! nat (nan_map e ! k) = nt ! (if length nt = length (nan_map e) then k else 0))"
    by blast
  have miss: "\<forall>i<length y. np_isnan (y ! i) \<longrightarrow>
          Tt_n out ! i = None \<and> St_n out ! i = None \<and> Nt_n out ! i = None"
    using T(2) S(2) N(2) by blast
  from T(1) S(1) N(1) miss ex show ?thesis by (intro conjI)
qed

text \<open>The instance for C6: the run on the concrete input.\<close>

theorem components_remapped_witness:
  "fit_single (default_config 3) c_demo y_demo t_demo smod_demo = Inr out_demo
   \<and> length (Tt_n out_demo) = length y_demo
   \<and> np_isnan (y_demo ! 0) \<and> Tt_n out_demo ! 0 = None \<and> St_n out_demo ! 0 = None
   \<and> Nt_n out_demo ! 0 = None
   \<and> create_nan_map y_demo ! 2 = 3 \<and> Tt_n out_demo ! 3 = Some 7"
  using components_remapped [OF fit_single_demo_default] fit_single_demo_default
  by (simp add: create_nan_map_demo) (simp add: out_demo_def y_demo_def np_isnan_def)

text \<open>
  C7. Whenever \<^verbatim>\<open>fit_single\<close> returns, both breakpoint arrays have the length of the
  input, both counts are at most that length, every slot from the count on is 0, and the
  slots before the count are the values \<^verbatim>\<open>nan_map[Vt_bp]\<close> and \<^verbatim>\<open>nan_map[Wt_bp]\<close> of
  lines 295-296.
\<close>

theorem breakpoint_arrays_zero_padded:
  assumes "fit_single cfg c y t sm = Inr out"
  shows "length (Vt_bp_arr out) = length y \<and> length (Wt_bp_arr out) = length y
       \<and> n_Vt_bp out \<le> length y \<and> n_Wt_bp out \<le> length y
       \<and> (\<forall>k. n_Vt_bp out \<le> k \<and> k < length y \<longrightarrow> Vt_bp_arr out ! k = 0)
       \<and> (\<forall>k. n_Wt_bp out \<le> k \<and> k < length y \<longrightarrow> Wt_bp_arr out ! k = 0)
       \<and> (\<exists>e s. fit_single_loop cfg c y t sm = Inr (e, s)
             \<and> np_take (nan_map e) (Vt_bp s) = Inr (take (n_Vt_bp out) (Vt_bp_arr out))
             \<and> np_take (nan_map e) (Wt_bp s) = Inr (take (n_Wt_bp out) (Wt_bp_arr out)))"
proof -
  from assms obtain e s where loop: "fit_single_loop cfg c y t sm = Inr (e, s)"
    and post: "fit_single_post e s = Inr out"
    by (auto simp: fit_single_Inr)
  from loop obtain s0 where pre: "fit_single_pre cfg c y t sm = Inr (e, s0)"
    by (auto simp: fit_single_loop_Inr)
  note env = fit_single_pre_env(1,2)[OF pre]
  from fit_single_post_Inr[OF post] obtain vn wn where
    vn: "np_take (nan_map e) (Vt_bp s) = Inr vn" and wn: "np_take (nan_map e) (Wt_bp s) = Inr wn"
    and va: "np_set_prefix (replicate (length y) 0) vn = Inr (Vt_bp_arr out)"
    and wa: "np_set_prefix (replicate (length y) 0) wn = Inr (Wt_bp_arr out)"
    and nv: "n_Vt_bp out = length (Vt_bp s)" and nw: "n_Wt_bp out = length (Wt_bp s)"
    unfolding env by blast
  have pos: "0 < length y" if "np_take (nan_map e) idx = Inr r" "r \<noteq> []" for idx r
  proof -
    from that have "idx \<noteq> []" by (auto simp: np_take_def split: if_splits)
    with that(1) have "nan_map e \<noteq> []" using np_take_nonempty by blast
    thus ?thesis using length_create_nan_map[of y] env by (cases "create_nan_map y") auto
  qed
  note V = np_set_prefix_props[OF va pos[OF vn]]
  note W = np_set_prefix_props[OF wa pos[OF wn]]
  have lv: "length vn = n_Vt_bp out" using np_take_length[OF vn] nv by simp
  have lw: "length wn = n_Wt_bp out" using np_take_length[OF wn] nw by simp
  have tv: "take (n_Vt_bp out) (Vt_bp_arr out) = vn" using V(3) lv by simp
  have tw: "take (n_Wt_bp out) (Wt_bp_arr out) = wn" using W(3) lw by simp
  have ex: "\<exists>e s. fit_single_loop cfg c y t sm = Inr (e, s)
             \<and> np_take (nan_map e) (Vt_bp s) = Inr (take (n_Vt_bp out) (Vt_bp_arr out))
             \<and> np_take (nan_map e) (Wt_bp s) = Inr (take (n_Wt_bp out) (Wt_bp_arr out))"
    using loop vn wn tv tw by blast
  have zv: "\<forall>k. n_Vt_bp out \<le> k \<and> k < length y \<longrightarrow> Vt_bp_arr out ! k = 0"
    using V(4) lv by simp
  have zw: "\<forall>k. n_Wt_bp out \<le> k \<and> k < length y \<longrightarrow> Wt_bp_arr out ! k = 0"
    using W(4) lw by simp
  have "n_Vt_bp out \<le> length y" "n_Wt_bp out \<le> length y" using V(2) W(2) lv lw by simp_all
  with V(1) W(1) zv zw ex show ?thesis by (intro conjI)
qed

text \<open>The instance for C7: the run on the concrete input.\<close>

theorem breakpoint_arrays_zero_padded_witness:
  "fit_single (default_config 3) c_demo y_demo t_demo smod_demo = Inr out_demo
   \<and> length (Vt_bp_arr out_demo) = length y_demo \<and> length (Wt_bp_arr out_demo) = length y_demo
   \<and> n_Vt_bp out_demo \<le> length y_demo \<and> n_Wt_bp out_demo \<le> length y_demo
   \<and> n_Vt_bp out_demo = 1 \<and> Vt_bp_arr out_demo ! 1 = 0 \<and> Wt_bp_arr out_demo ! 4 = 0"
  using breakpoint_arrays_zero_padded [OF fit_single_demo_default] fit_single_demo_default
  by (simp add: out_demo_def y_demo_def)

text \<open>
  C8. Claimed for every length \<open>N\<close>: the dummy design has \<open>N\<close> rows and \<open>f\<close> columns,
  an intercept in front of the tiled block. For \<open>N = 1\<close> and \<open>f = 2\<close> the tiled block is
  the single row \<open>[1]\<close>; its only column is constant and not zero, so
  \<^verbatim>\<open>sm.add_constant\<close> (\<^verbatim>\<open>has_constant='skip'\<close>) returns it as it is, and the design has
  one column, not two.
\<close>

theorem dummy_design_matrix_counterexample:
  "build_seasonal_model (default_config 2) [Some 1] = Inr (Some [[Some 1]])
   \<and> \<not> (\<exists>M. build_seasonal_model (default_config 2) [Some 1] = Inr (Some M)
             \<and> length M = 1 \<and> list_all (\<lambda>r. length r = nat (frequency (default_config 2))) M)"
proof -
  have "build_seasonal_model (default_config 2) [Some 1] = Inr (Some [[Some 1]])"
    by (simp add: build_seasonal_model_def default_config_def n_boxes_div eye_box_def eye_row_def
          add_constant_def is_nonzero_const_def column_def np_isnan_def tiled_box_def)
  thus ?thesis by (simp add: default_config_def)
qed

text \<open>
  C8, for \<open>N \<ge> 2\<close>: with \<open>f \<ge> 2\<close> the dummy design has \<open>N\<close> rows of \<open>f\<close> entries;
  row \<open>i\<close> is the intercept 1 followed by row \<open>i mod f\<close> of the block, that is by the
  unit row of the identity for \<open>i mod f < f - 1\<close> and by the row of \<open>-1\<close> for
  \<open>i mod f = f - 1\<close>.
\<close>

theorem dummy_design_matrix:
  assumes "season_type cfg = ''dummy''" and "2 \<le> frequency cfg" and "2 \<le> length t"
  shows "\<exists>M. build_seasonal_model cfg t = Inr (Some M) \<and> length M = length t
      \<and> (\<forall>i<length t. length (M ! i) = nat (frequency cfg) \<and> M ! i ! 0 = Some 1
            \<and> tl (M ! i) = eye_box (nat (frequency cfg - 1)) ! (i mod nat (frequency cfg))
            \<and> (\<forall>j<nat (frequency cfg - 1). M ! i ! Suc j =
                  (if i mod nat (frequency cfg) = nat (frequency cfg - 1) then Some (- 1)
                   else if i mod nat (frequency cfg) = j then Some 1 else Some 0)))"
proof -
  define f where "f = frequency cfg"
  define k where "k = nat (f - 1)"
  define M where "M = map (\<lambda>r. Some 1 # r) (tiled_box (length t) f)"
  have f0: "0 < f" and f2: "2 \<le> f" using assms(2) by (simp_all add: f_def)
  have fk: "nat f = Suc k" using f0 by (simp add: k_def)
  have T: "length (tiled_box (length t) f) = length t" by (rule tiled_box_length [OF f0])
  have ac: "add_constant (tiled_box (length t) f) = Inr M"
    unfolding M_def by (rule tiled_box_no_constant [OF f2 assms(3)])
  have b: "build_seasonal_model cfg t = Inr (Some M)"
    using assms(1) f0 ac
    by (simp add: build_seasonal_model_def Let_def f_def [symmetric])
  have rows: "length (M ! i) = nat f \<and> M ! i ! 0 = Some 1
            \<and> tl (M ! i) = eye_box k ! (i mod nat f)
            \<and> (\<forall>j<k. M ! i ! Suc j =
                  (if i mod nat f = k then Some (- 1)
                   else if i mod nat f = j then Some 1 else Some 0))"
    if i: "i < length t" for i
  proof -
    have mi: "M ! i = Some 1 # eye_box k ! (i mod Suc k)"
      using i T fk tiled_box_nth [OF f0 i] by (simp add: M_def k_def)
    have le: "i mod Suc k \<le> k" by (simp add: less_Suc_eq_le [symmetric])
    show ?thesis using mi fk length_eye_box_nth [OF le] eye_box_nth(1) [OF le] by simp
  qed
  have "length M = length t" using T by (simp add: M_def)
  with b rows show ?thesis unfolding f_def [symmetric] k_def [symmetric] by blast
qed

text \<open>The instance for C8: frequency 3 and five time steps.\<close>

theorem dummy_design_matrix_witness:
  "season_type (default_config 3) = ''dummy'' \<and> 2 \<le> frequency (default_config 3)
   \<and> 2 \<le> length t_demo
   \<and> (\<exists>M. build_seasonal_model (default_config 3) t_demo = Inr (Some M) \<and> length M = 5
          \<and> length (M ! 4) = 3 \<and> M ! 3 ! 0 = Some 1 \<and> M ! 2 ! 1 = Some (- 1)
          \<and> M ! 4 ! 1 = Some 0 \<and> M ! 4 ! 2 = Some 1)"
proof -
  have h: "season_type (default_config 3) = ''dummy''" "2 \<le> frequency (default_config 3)"
    "2 \<le> length t_demo"
    by (simp_all add: default_config_def t_demo_def)
  have f: "nat (frequency (default_config 3)) = 3" "nat (frequency (default_config 3) - 1) = 2"
    "length t_demo = 5"
    by (simp_all add: default_config_def t_demo_def)
  from dummy_design_matrix [OF h] obtain M where
    b: "build_seasonal_model (default_config 3) t_demo = Inr (Some M)"
    and l: "length M = 5"
    and r: "\<And>i. i < 5 \<Longrightarrow> length (M ! i) = 3 \<and> M ! i ! 0 = Some 1
            \<and> (\<forall>j<2. M ! i ! Suc j =
                  (if i mod 3 = 2 then Some (- 1) else if i mod 3 = j then Some 1 else Some 0))"
    unfolding f by blast
  from r [of 4] have r4: "length (M ! 4) = 3" "M ! 4 ! Suc 0 = Some 0" "M ! 4 ! Suc 1 = Some 1"
    by simp_all
  from r [of 3] have r3: "M ! 3 ! 0 = Some 1" by simp
  from r [of 2] have r2: "M ! 2 ! Suc 0 = Some (- 1)" by simp
  from b l r4 r3 r2 have "\<exists>M. build_seasonal_model (default_config 3) t_demo = Inr (Some M) \<and> length M = 5
          \<and> length (M ! 4) = 3 \<and> M ! 3 ! 0 = Some 1 \<and> M ! 2 ! 1 = Some (- 1)
          \<and> M ! 4 ! 1 = Some 0 \<and> M ! 4 ! 2 = Some 1"
    by (intro exI [of _ M]) (simp add: numeral_2_eq_2)
  with h show ?thesis by simp
qed

text \<open>
  C9. With a \<^verbatim>\<open>season_type\<close> other than the three known strings
  \<^verbatim>\<open>build_seasonal_model\<close> raises its ValueError, and since \<^verbatim>\<open>fit\<close> calls it first, no
  pixel is handed to \<^verbatim>\<open>fit_single\<close> and no array is produced. With one of the three
  strings neither \<^verbatim>\<open>build_seasonal_model\<close> nor the rest of \<^verbatim>\<open>fit\<close> raises that error.
\<close>

theorem unknown_season_type_rejected_first:
  "(season_type cfg \<noteq> ''dummy'' \<and> season_type cfg \<noteq> ''harmonic'' \<and> season_type cfg \<noteq> ''none''
      \<longrightarrow> build_seasonal_model cfg t = Inl UnknownSeasonalModel
        \<and> fit cfg c Y t = (0, Inl UnknownSeasonalModel))
   \<and> (season_type cfg = ''dummy'' \<or> season_type cfg = ''harmonic'' \<or> season_type cfg = ''none''
      \<longrightarrow> build_seasonal_model cfg t \<noteq> Inl UnknownSeasonalModel
        \<and> snd (fit cfg c Y t) \<noteq> Inl UnknownSeasonalModel)"
proof -
  have a: "fit cfg c Y t = (0, Inl UnknownSeasonalModel)"
    if "build_seasonal_model cfg t = Inl UnknownSeasonalModel"
    using that by (simp add: fit_def)
  have b: "snd (fit cfg c Y t) \<noteq> Inl UnknownSeasonalModel"
    if "build_seasonal_model cfg t \<noteq> Inl UnknownSeasonalModel"
    using that fit_pixels_not_unknown by (cases "build_seasonal_model cfg t") (simp_all add: fit_def)
  show ?thesis using a b build_seasonal_model_unknown [of cfg t] by blast
qed

text \<open>The instance for C9: an unknown string, and the three known ones.\<close>

theorem unknown_season_type_rejected_first_witness:
  "fit ((default_config 3)\<lparr>season_type := ''weekly''\<rparr>) c_demo cube_demo t_demo
     = (0, Inl UnknownSeasonalModel)
   \<and> snd (fit (default_config 3) c_demo cube_demo t_demo) \<noteq> Inl UnknownSeasonalModel
   \<and> snd (fit ((default_config 3)\<lparr>season_type := ''harmonic''\<rparr>) c_demo cube_demo t_demo)
       \<noteq> Inl UnknownSeasonalModel
   \<and> snd (fit ((default_config 3)\<lparr>season_type := ''none''\<rparr>) c_demo cube_demo t_demo)
       \<noteq> Inl UnknownSeasonalModel"
  using unknown_season_type_rejected_first
          [of "(default_config 3)\<lparr>season_type := ''weekly''\<rparr>" t_demo c_demo cube_demo]
        unknown_season_type_rejected_first [of "default_config 3" t_demo c_demo cube_demo]
        unknown_season_type_rejected_first
          [of "(default_config 3)\<lparr>season_type := ''harmonic''\<rparr>" t_demo c_demo cube_demo]
        unknown_season_type_rejected_first
          [of "(default_config 3)\<lparr>season_type := ''none''\<rparr>" t_demo c_demo cube_demo]
  by (simp add: default_config_def)

text \<open>
  C10. Claimed: with \<^verbatim>\<open>max_iter <= 1\<close> the names \<open>Tt\<close>, \<open>St\<close> (without a seasonal model)
  and \<open>Nt\<close> are all unassigned when they are read after the loop. \<open>St\<close> is assigned
  before the loop on every path (line 185); here, without a seasonal model and with
  \<^verbatim>\<open>max_iter = 1\<close>, the loop is left with \<open>Tt\<close> and \<open>Nt\<close> unbound and \<open>St\<close> bound to
  three zeros, which line 290 could write.
\<close>

theorem max_iter_below_two_no_result_counterexample:
  "\<forall>c. \<exists>e s. fit_single_loop ((default_config 3)\<lparr>season_type := ''none'', max_iter := 1\<rparr>) c
                 [Some 1, Some 2, Some 3] [Some 1, Some 2, Some 3] None = Inr (e, s)
      \<and> Tt s = None \<and> Nt s = None \<and> St s = [Some 0, Some 0, Some 0]
      \<and> np_put (replicate (nrow_n e) None) (nan_map e) (St s) = Inr [Some 0, Some 0, Some 0]"
  by (simp add: fit_single_loop_def fit_single_pre_def create_nan_map_def np_isnan_def
        default_config_def np_take_def np_index_def Let_def upt_conv_Cons
        bfast_loop.simps
          [of _ _ _ "\<lparr>Vt_bp = [], Wt_bp = [], CheckTimeTt = [0], CheckTimeSt = [0], i_iter = 1,
                     Tt = None, St = [Some 0, Some 0, Some 0], Nt = None\<rparr>"]
        loop_cond_def np_put_def eval_nat_numeral)

text \<open>
  C10, as the code has it: with \<^verbatim>\<open>max_iter <= 1\<close> \<^verbatim>\<open>fit_single\<close> returns nothing; once
  lines 169-195 have run, the loop is left in its initial state (no pass), \<open>Tt\<close> and
  \<open>Nt\<close> are unbound and the exception is the unbound \<open>Tt\<close> of line 288. A result
  needs \<^verbatim>\<open>max_iter >= 2\<close>.
\<close>

theorem max_iter_below_two_no_result:
  "(max_iter cfg \<le> 1 \<longrightarrow>
      (\<exists>err. fit_single cfg c y t sm = Inl err)
    \<and> (\<forall>e s0. fit_single_pre cfg c y t sm = Inr (e, s0) \<longrightarrow>
          fit_single_loop cfg c y t sm = Inr (e, s0) \<and> i_iter s0 = 1 \<and> Tt s0 = None \<and> Nt s0 = None
        \<and> fit_single cfg c y t sm = Inl (UnboundLocalError ''Tt'')))
   \<and> (\<forall>out. fit_single cfg c y t sm = Inr out \<longrightarrow> 2 \<le> max_iter cfg)"
proof -
  have main: "fit_single_loop cfg c y t sm = Inr (e, s0) \<and> i_iter s0 = 1 \<and> Tt s0 = None \<and> Nt s0 = None
        \<and> fit_single cfg c y t sm = Inl (UnboundLocalError ''Tt'')"
    if le: "max_iter cfg \<le> 1" and pre: "fit_single_pre cfg c y t sm = Inr (e, s0)" for e s0
  proof -
    note env = fit_single_pre_env[OF pre]
    have "\<not> loop_cond cfg s0" using loop_cond_initial[OF env(5,7,8)] le by simp
    hence loop: "bfast_loop cfg c e s0 = Inr s0" by (subst bfast_loop.simps) simp
    hence l: "fit_single_loop cfg c y t sm = Inr (e, s0)" by (simp add: fit_single_loop_def pre)
    hence "fit_single cfg c y t sm = Inl (UnboundLocalError ''Tt'')"
      by (simp add: fit_single_def fit_single_post_unbound[OF env(9)])
    with l env(8,9,10) show ?thesis by simp
  qed
  have fails: "\<exists>err. fit_single cfg c y t sm = Inl err" if le: "max_iter cfg \<le> 1"
  proof (cases "fit_single_pre cfg c y t sm")
    case (Inl err)
    then show ?thesis using fit_single_pre_Inl by blast
  next
    case (Inr es)
    then have "fit_single_pre cfg c y t sm = Inr (fst es, snd es)" by simp
    from main[OF le this] show ?thesis by blast
  qed
  have "2 \<le> max_iter cfg" if "fit_single cfg c y t sm = Inr out" for out
  proof (rule ccontr)
    assume "\<not> 2 \<le> max_iter cfg"
    hence "max_iter cfg \<le> 1" by simp
    from fails[OF this] that show False by auto
  qed
  with main fails show ?thesis by blast
qed

text \<open>The instance for C10: the concrete input with \<^verbatim>\<open>max_iter\<close> 1 and 2.\<close>

theorem max_iter_below_two_no_result_witness:
  "max_iter ((default_config 3)\<lparr>max_iter := 1\<rparr>) \<le> 1
   \<and> fit_single_loop ((default_config 3)\<lparr>max_iter := 1\<rparr>) c_demo y_demo t_demo smod_demo
       = Inr (e_demo, s0_demo)
   \<and> fit_single ((default_config 3)\<lparr>max_iter := 1\<rparr>) c_demo y_demo t_demo smod_demo
       = Inl (UnboundLocalError ''Tt'')
   \<and> fit_single ((default_config 3)\<lparr>max_iter := 2\<rparr>) c_demo y_demo t_demo smod_demo = Inr out_demo
   \<and> 2 \<le> max_iter ((default_config 3)\<lparr>max_iter := 2\<rparr>)"
  using max_iter_below_two_no_result
          [of "(default_config 3)\<lparr>max_iter := 1\<rparr>" c_demo y_demo t_demo smod_demo]
        pre_demo(1) [of 1] fit_single_demo_2
  by simp

end
